theory Spec2Isabelle
  imports Complex_Main
begin

section \<open>Data model (Restaurant/models.py)\<close>

text \<open>
  The relational store is a record of row lists, one list per model class, with the
  auto-increment counter of every table that the modelled operations insert into.
  A \<open>DecimalField\<close> value is the rational number it denotes; a date is a day number and
  a time of day a number of seconds. Primary keys and foreign keys are natural numbers.
  Fields that no modelled operation reads (descriptions, e-mail addresses, creation and
  update timestamps other than the date of an order and of a payment) are left out, and
  so is the digit limit of a decimal column, which the database enforces.
\<close>

type_synonym decimal = rat
type_synonym date = nat
type_synonym time_of_day = nat

datatype reservation_status = R_BOOKED | R_COMPLETED | R_CANCELLED

datatype order_status = O_PENDING | O_IN_PROGRESS | O_SERVED | O_CANCELLED

datatype payment_method = CASH | CARD | DIGITAL | UPI | BANK_TRANSFER

datatype payment_status = P_PENDING | P_COMPLETED | P_FAILED | P_REFUNDED

record MenuItem =
  mi_id :: nat
  mi_name :: string
  mi_price :: decimal
  mi_available :: bool

record Table =
  t_id :: nat
  table_number :: int
  capacity :: int
  is_available :: bool

record Reservation =
  r_id :: nat
  r_customer_name :: string
  r_customer_phone :: string
  r_table :: nat
  r_date :: date
  r_time :: time_of_day
  r_party_size :: int
  r_status :: reservation_status
  r_special_requests :: string

record Order =
  o_id :: nat
  o_table :: nat
  o_customer_name :: string
  total_price :: decimal
  o_status :: order_status
  o_timestamp :: date
  o_notes :: string

record OrderItem =
  oi_id :: nat
  oi_order :: nat
  oi_menu_item :: nat
  quantity :: int
  oi_price :: decimal
  special_instructions :: string

record Payment =
  p_id :: nat
  p_order :: nat
  amount :: decimal
  p_method :: payment_method
  p_status :: payment_status
  transaction_id :: "string option"
  tip_amount :: decimal
  tax_amount :: decimal
  discount_amount :: decimal
  final_amount :: decimal
  payment_date :: date
  p_notes :: string

record db =
  menu_items :: "MenuItem list"
  tables :: "Table list"
  reservations :: "Reservation list"
  orders :: "Order list"
  order_items :: "OrderItem list"
  payments :: "Payment list"
  next_reservation_id :: nat
  next_order_id :: nat
  next_order_item_id :: nat
  next_payment_id :: nat

text \<open>
  Outcomes of a request other than success. \<open>ValidationError\<close> is
  \<open>serializers.ValidationError\<close>; \<open>InvalidStateError\<close> is a view's
  \<open>HTTP_400_BAD_REQUEST\<close> response from a status guard; \<open>NotFoundError\<close> is a
  \<open>HTTP_404_NOT_FOUND\<close> response (also the one of \<open>get_object\<close>); the others are
  Python exceptions that no handler of the repository catches.
\<close>

datatype error =
  ValidationError | InvalidStateError | NotFoundError
  | TypeError | ValueError | KeyError | DoesNotExist | IntegrityError
  | ZeroDivisionError | InvalidOperation

subsection \<open>Queries and saves\<close>

definition get_by :: "('a \<Rightarrow> nat) \<Rightarrow> 'a list \<Rightarrow> nat \<Rightarrow> 'a option" where
  "get_by key rows k = find (\<lambda>r. key r = k) rows"

text \<open>\<open>obj.save()\<close> of a stored instance: the row with its primary key takes its fields.\<close>

definition update_row :: "('a \<Rightarrow> nat) \<Rightarrow> 'a \<Rightarrow> 'a list \<Rightarrow> 'a list" where
  "update_row key row rows = map (\<lambda>r. if key r = key row then row else r) rows"

definition get_menu_item :: "db \<Rightarrow> nat \<Rightarrow> MenuItem option" where
  "get_menu_item st k = get_by mi_id (menu_items st) k"

definition get_table :: "db \<Rightarrow> nat \<Rightarrow> Table option" where
  "get_table st k = get_by t_id (tables st) k"

definition get_reservation :: "db \<Rightarrow> nat \<Rightarrow> Reservation option" where
  "get_reservation st k = get_by r_id (reservations st) k"

definition get_order :: "db \<Rightarrow> nat \<Rightarrow> Order option" where
  "get_order st k = get_by o_id (orders st) k"

definition get_payment :: "db \<Rightarrow> nat \<Rightarrow> Payment option" where
  "get_payment st k = get_by p_id (payments st) k"

definition save_table :: "db \<Rightarrow> Table \<Rightarrow> db" where
  "save_table st t = st\<lparr>tables := update_row t_id t (tables st)\<rparr>"

definition save_reservation :: "db \<Rightarrow> Reservation \<Rightarrow> db" where
  "save_reservation st r = st\<lparr>reservations := update_row r_id r (reservations st)\<rparr>"

definition save_order :: "db \<Rightarrow> Order \<Rightarrow> db" where
  "save_order st ord = st\<lparr>orders := update_row o_id ord (orders st)\<rparr>"

definition save_payment :: "db \<Rightarrow> Payment \<Rightarrow> db" where
  "save_payment st p = st\<lparr>payments := update_row p_id p (payments st)\<rparr>"

section \<open>Python values\<close>

text \<open>
  A value that reaches the code unvalidated (an entry of a request's JSON body) or that
  the code writes as a literal keeps its Python type: an int, a float (its mantissa and
  binary exponent), a string, a bool or \<open>None\<close>. Strings are lists of 8-bit
  characters.
\<close>

datatype pyval = PyInt int | PyFloat int int | PyStr string | PyBool bool | PyNone

text \<open>\<open>isinstance(x, int)\<close>: a \<open>bool\<close> is an \<open>int\<close>.\<close>

fun is_int :: "pyval \<Rightarrow> bool" where
  "is_int (PyInt i) = True"
| "is_int (PyBool b) = True"
| "is_int (PyFloat m e) = False"
| "is_int (PyStr s) = False"
| "is_int PyNone = False"

text \<open>
  Python decides \<open>Decimal * x\<close> by the type of \<open>x\<close>: an \<open>int\<close> is multiplied
  exactly (the amounts here stay far below the 28 digits of the default context); for a
  \<open>float\<close>, a \<open>str\<close> or \<open>None\<close> both
  \<open>Decimal.__mul__\<close> and the reflected method return \<open>NotImplemented\<close>, which is a
  \<open>TypeError\<close>.
\<close>

fun decimal_mul :: "decimal \<Rightarrow> pyval \<Rightarrow> error + decimal" where
  "decimal_mul d (PyInt i) = Inr (d * of_int i)"
| "decimal_mul d (PyBool b) = Inr (d * (if b then 1 else 0))"
| "decimal_mul d (PyFloat m e) = Inl TypeError"
| "decimal_mul d (PyStr s) = Inl TypeError"
| "decimal_mul d PyNone = Inl TypeError"

text \<open>
  \<open>int(s)\<close> for a string: surrounding whitespace is stripped, a sign may lead, and the
  digits may be grouped by single underscores. Of the 8-bit characters the whitespace
  ones are 9 to 13, 28 to 32, 133 and 160, and the decimal digits are \<open>0\<close> to \<open>9\<close>.
\<close>

definition py_isspace :: "char \<Rightarrow> bool" where
  "py_isspace c =
     (let n = (of_char c :: nat)
      in (9 \<le> n \<and> n \<le> 13) \<or> (28 \<le> n \<and> n \<le> 32) \<or> n = 133 \<or> n = 160)"

definition py_strip :: "string \<Rightarrow> string" where
  "py_strip s = rev (dropWhile py_isspace (rev (dropWhile py_isspace s)))"

definition digit_value :: "char \<Rightarrow> nat option" where
  "digit_value c =
     (let n = (of_char c :: nat) in if 48 \<le> n \<and> n \<le> 57 then Some (n - 48) else None)"

fun parse_digits :: "nat \<Rightarrow> string \<Rightarrow> nat option" where
  "parse_digits acc [] = Some acc"
| "parse_digits acc [c] =
     (case digit_value c of None \<Rightarrow> None | Some v \<Rightarrow> Some (acc * 10 + v))"
| "parse_digits acc (c # d # cs) =
     (if c = CHR ''_''
      then (case digit_value d of
              None \<Rightarrow> None
            | Some v \<Rightarrow> parse_digits (acc * 10 + v) cs)
      else (case digit_value c of
              None \<Rightarrow> None
            | Some v \<Rightarrow> parse_digits (acc * 10 + v) (d # cs)))"

definition parse_unsigned :: "string \<Rightarrow> nat option" where
  "parse_unsigned s =
     (case s of
        [] \<Rightarrow> None
      | c # cs \<Rightarrow> (case digit_value c of None \<Rightarrow> None | Some v \<Rightarrow> parse_digits v cs))"

definition int_of_string :: "string \<Rightarrow> int option" where
  "int_of_string s =
     (case py_strip s of
        [] \<Rightarrow> None
      | c # cs \<Rightarrow>
          if c = CHR ''-'' then map_option (\<lambda>n. - int n) (parse_unsigned cs)
          else if c = CHR ''+'' then map_option int (parse_unsigned cs)
          else map_option int (parse_unsigned (c # cs)))"

text \<open>
  What an \<open>IntegerField\<close> column stores for a value (\<open>get_prep_value\<close> applies
  \<open>int\<close>): a float is truncated towards zero, a string is parsed or is a
  \<open>ValueError\<close>, and \<open>None\<close> is refused by the column, which is not nullable.
\<close>

definition truncate :: "rat \<Rightarrow> int" where
  "truncate x = (if 0 \<le> x then \<lfloor>x\<rfloor> else - \<lfloor>- x\<rfloor>)"

fun integer_column_value :: "pyval \<Rightarrow> error + int" where
  "integer_column_value (PyInt i) = Inr i"
| "integer_column_value (PyBool b) = Inr (if b then 1 else 0)"
| "integer_column_value (PyFloat m e) =
     Inr (truncate (if 0 \<le> e then of_int m * 2 ^ nat e else of_int m / 2 ^ nat (- e)))"
| "integer_column_value (PyStr s) =
     (case int_of_string s of None \<Rightarrow> Inl ValueError | Some i \<Rightarrow> Inr i)"
| "integer_column_value PyNone = Inl IntegrityError"

section \<open>Payments (PaymentViewSet in Restaurant/views.py)\<close>

text \<open>
  \<open>complete_payment\<close>: the request's \<open>transaction_id\<close> is optional and defaults to the
  empty string. The three saves are separate writes: an exception between them would keep
  the earlier ones, so every operation returns the store next to its outcome.
  \<open>payment.order\<close> and \<open>payment.order.table\<close> follow the foreign keys.
\<close>

definition complete_payment :: "db \<Rightarrow> nat \<Rightarrow> string option \<Rightarrow> (error + Payment) \<times> db" where
  "complete_payment st pk req_transaction_id =
     (case get_payment st pk of
        None \<Rightarrow> (Inl NotFoundError, st)
      | Some payment \<Rightarrow>
          if p_status payment = P_COMPLETED then (Inl InvalidStateError, st)
          else
            let tid = (case req_transaction_id of None \<Rightarrow> [] | Some t \<Rightarrow> t);
                payment' = payment\<lparr>p_status := P_COMPLETED, transaction_id := Some tid\<rparr>;
                st1 = save_payment st payment'
            in (case get_order st1 (p_order payment') of
                  None \<Rightarrow> (Inl DoesNotExist, st1)
                | Some ord \<Rightarrow>
                    let ord' = ord\<lparr>o_status := O_SERVED\<rparr>;
                        st2 = save_order st1 ord'
                    in (case get_table st2 (o_table ord') of
                          None \<Rightarrow> (Inl DoesNotExist, st2)
                        | Some t \<Rightarrow>
                            let t' = t\<lparr>is_available := True\<rparr>;
                                st3 = save_table st2 t'
                            in (Inr payment', st3))))"

definition refund :: "db \<Rightarrow> nat \<Rightarrow> (error + Payment) \<times> db" where
  "refund st pk =
     (case get_payment st pk of
        None \<Rightarrow> (Inl NotFoundError, st)
      | Some payment \<Rightarrow>
          if p_status payment \<noteq> P_COMPLETED then (Inl InvalidStateError, st)
          else
            let payment' = payment\<lparr>p_status := P_REFUNDED\<rparr>;
                st1 = save_payment st payment'
            in (case get_order st1 (p_order payment') of
                  None \<Rightarrow> (Inl DoesNotExist, st1)
                | Some ord \<Rightarrow>
                    let ord' = ord\<lparr>o_status := O_CANCELLED\<rparr>;
                        st2 = save_order st1 ord'
                    in (Inr payment', st2)))"

text \<open>
  \<open>Payment.calculate_final_amount\<close> (models.py): the derived field is recomputed from the
  instance's four inputs and the instance is saved.
\<close>

definition calculate_final_amount :: "db \<Rightarrow> Payment \<Rightarrow> Payment \<times> db" where
  "calculate_final_amount st payment =
     (let payment' = payment\<lparr>final_amount :=
            amount payment + tip_amount payment + tax_amount payment - discount_amount payment\<rparr>
      in (payment', save_payment st payment'))"

text \<open>
  \<open>Payment.objects.create\<close>: a new row with the next primary key, \<open>final_amount\<close> at its
  default 0 and \<open>payment_date\<close> set by \<open>auto_now_add\<close> (the clock is the argument
  \<open>now\<close>). \<open>order\<close> is a \<open>OneToOneField\<close>: the store refuses a second payment of one order.
\<close>

definition objects_create_payment ::
  "db \<Rightarrow> date \<Rightarrow> nat \<Rightarrow> decimal \<Rightarrow> payment_method \<Rightarrow> payment_status \<Rightarrow> string option
     \<Rightarrow> decimal \<Rightarrow> decimal \<Rightarrow> decimal \<Rightarrow> string \<Rightarrow> (error + Payment) \<times> db" where
  "objects_create_payment st now order_id amt method status tid tip tax discount notes =
     (if get_by p_order (payments st) order_id \<noteq> None then (Inl IntegrityError, st)
      else
        let payment = \<lparr>p_id = next_payment_id st, p_order = order_id, amount = amt,
              p_method = method, p_status = status, transaction_id = tid, tip_amount = tip,
              tax_amount = tax, discount_amount = discount, final_amount = 0,
              payment_date = now, p_notes = notes\<rparr>
        in (Inr payment, st\<lparr>payments := payments st @ [payment],
                              next_payment_id := Suc (next_payment_id st)\<rparr>))"

subsection \<open>PaymentSerializer (Restaurant/serializers.py): the strict-create path\<close>

text \<open>
  The validated data of \<open>PaymentSerializer\<close>: \<open>order\<close> is the Order instance the primary
  key resolved to; \<open>amount\<close> and \<open>payment_method\<close> are required; the fields with a model
  default may be absent.
\<close>

record payment_data =
  pd_order :: Order
  pd_amount :: decimal
  pd_method :: payment_method
  pd_status :: "payment_status option"
  pd_transaction_id :: "string option"
  pd_tip_amount :: "decimal option"
  pd_tax_amount :: "decimal option"
  pd_discount_amount :: "decimal option"
  pd_notes :: "string option"

definition or_default :: "'a option \<Rightarrow> 'a \<Rightarrow> 'a" where
  "or_default v d = (case v of None \<Rightarrow> d | Some x \<Rightarrow> x)"

text \<open>\<open>data.get('amount')\<close> is truthy unless the amount is zero; a model instance is truthy.\<close>

definition PaymentSerializer_validate :: "payment_data \<Rightarrow> error + payment_data" where
  "PaymentSerializer_validate data =
     (if pd_amount data \<noteq> 0 \<and> pd_amount data \<noteq> total_price (pd_order data)
      then Inl ValidationError else Inr data)"

definition PaymentSerializer_create :: "db \<Rightarrow> date \<Rightarrow> payment_data \<Rightarrow> (error + Payment) \<times> db" where
  "PaymentSerializer_create st now validated_data =
     (case objects_create_payment st now (o_id (pd_order validated_data))
             (pd_amount validated_data) (pd_method validated_data)
             (or_default (pd_status validated_data) P_PENDING)
             (pd_transaction_id validated_data)
             (or_default (pd_tip_amount validated_data) 0)
             (or_default (pd_tax_amount validated_data) 0)
             (or_default (pd_discount_amount validated_data) 0)
             (or_default (pd_notes validated_data) []) of
        (Inl e, st1) \<Rightarrow> (Inl e, st1)
      | (Inr payment, st1) \<Rightarrow>
          (case calculate_final_amount st1 payment of
             (payment', st2) \<Rightarrow>
               if p_status payment' = P_COMPLETED
               then (Inr payment', save_order st2 ((pd_order validated_data)\<lparr>o_status := O_SERVED\<rparr>))
               else (Inr payment', st2)))"

subsection \<open>PaymentCreateSerializer (Restaurant/serializers.py): the create action\<close>

text \<open>The literal \<open>0.08\<close> is the double 5764607523034235 * 2^-56.\<close>

definition tax_rate_literal :: pyval where
  "tax_rate_literal = PyFloat 5764607523034235 (- 56)"

record payment_create_data =
  pc_order :: Order
  pc_method :: payment_method
  pc_tip_amount :: "decimal option"
  pc_discount_amount :: "decimal option"
  pc_notes :: "string option"

text \<open>\<open>hasattr(value, 'payment')\<close>: the reverse one-to-one accessor finds a payment row.\<close>

definition PaymentCreateSerializer_validate_order :: "db \<Rightarrow> Order \<Rightarrow> error + Order" where
  "PaymentCreateSerializer_validate_order st v =
     (if get_by p_order (payments st) (o_id v) \<noteq> None then Inl ValidationError
      else if o_status v = O_CANCELLED then Inl ValidationError
      else Inr v)"

definition PaymentCreateSerializer_create ::
  "db \<Rightarrow> date \<Rightarrow> payment_create_data \<Rightarrow> (error + Payment) \<times> db" where
  "PaymentCreateSerializer_create st now validated_data =
     (let ord = pc_order validated_data in
      case decimal_mul (total_price ord) tax_rate_literal of
        Inl e \<Rightarrow> (Inl e, st)
      | Inr tax \<Rightarrow>
          (case objects_create_payment st now (o_id ord) (total_price ord)
                  (pc_method validated_data) P_PENDING None
                  (or_default (pc_tip_amount validated_data) 0) tax
                  (or_default (pc_discount_amount validated_data) 0)
                  (or_default (pc_notes validated_data) []) of
             (Inl e, st1) \<Rightarrow> (Inl e, st1)
           | (Inr payment, st1) \<Rightarrow>
               (case calculate_final_amount st1 payment of
                  (payment', st2) \<Rightarrow> (Inr payment', st2))))"

text \<open>
  The create action of \<open>PaymentViewSet\<close>: the request names the order by primary key;
  \<open>is_valid\<close> resolves it (an unknown key is a ValidationError) and runs
  \<open>validate_order\<close>, then \<open>create\<close> runs.
\<close>

record payment_request =
  rq_order :: nat
  rq_method :: payment_method
  rq_tip_amount :: "decimal option"
  rq_discount_amount :: "decimal option"
  rq_notes :: "string option"

definition create_payment :: "db \<Rightarrow> date \<Rightarrow> payment_request \<Rightarrow> (error + Payment) \<times> db" where
  "create_payment st now req =
     (case get_order st (rq_order req) of
        None \<Rightarrow> (Inl ValidationError, st)
      | Some ord \<Rightarrow>
          (case PaymentCreateSerializer_validate_order st ord of
             Inl e \<Rightarrow> (Inl e, st)
           | Inr v \<Rightarrow>
               PaymentCreateSerializer_create st now
                 \<lparr>pc_order = v, pc_method = rq_method req, pc_tip_amount = rq_tip_amount req,
                  pc_discount_amount = rq_discount_amount req, pc_notes = rq_notes req\<rparr>))"

section \<open>Orders (Order in models.py, OrderCreateSerializer, OrderViewSet)\<close>

text \<open>
  \<open>Order.calculate_total\<close>: the sum of \<open>item.price * item.quantity\<close> over the rows of
  \<open>self.order_items.all()\<close>, stored in \<open>total_price\<close> and saved. The quantity is read
  back from an \<open>IntegerField\<close>, so the product is a Decimal times an int.
\<close>

definition order_items_of :: "db \<Rightarrow> nat \<Rightarrow> OrderItem list" where
  "order_items_of st k = filter (\<lambda>i. oi_order i = k) (order_items st)"

definition items_total :: "OrderItem list \<Rightarrow> decimal" where
  "items_total its = sum_list (map (\<lambda>i. oi_price i * of_int (quantity i)) its)"

definition calculate_total :: "db \<Rightarrow> Order \<Rightarrow> decimal \<times> db" where
  "calculate_total st ord =
     (let tot = items_total (order_items_of st (o_id ord));
          ord' = ord\<lparr>total_price := tot\<rparr>
      in (tot, save_order st ord'))"

text \<open>
  \<open>OrderItem.objects.create\<close> with \<open>OrderItem.save\<close>: a falsy price (zero) is replaced
  by the menu item's price before the row is written. The quantity is whatever the caller
  passes; the row holds its column value, and the insert fails when it has none. The
  instance in memory keeps the value as passed.
\<close>

definition objects_create_order_item ::
  "db \<Rightarrow> nat \<Rightarrow> MenuItem \<Rightarrow> pyval \<Rightarrow> decimal \<Rightarrow> string \<Rightarrow> (error + OrderItem) \<times> db" where
  "objects_create_order_item st order_id menu_item q price instr =
     (case integer_column_value q of
        Inl e \<Rightarrow> (Inl e, st)
      | Inr n \<Rightarrow>
          let order_item = \<lparr>oi_id = next_order_item_id st, oi_order = order_id,
                oi_menu_item = mi_id menu_item, quantity = n,
                oi_price = (if price = 0 then mi_price menu_item else price),
                special_instructions = instr\<rparr>
          in (Inr order_item, st\<lparr>order_items := order_items st @ [order_item],
                                  next_order_item_id := Suc (next_order_item_id st)\<rparr>))"

text \<open>\<open>Order.objects.create\<close>: a total of 0, status PENDING, the timestamp from the clock.\<close>

definition objects_create_order :: "db \<Rightarrow> date \<Rightarrow> Table \<Rightarrow> string \<Rightarrow> string \<Rightarrow> Order \<times> db" where
  "objects_create_order st now t customer notes =
     (let ord = \<lparr>o_id = next_order_id st, o_table = t_id t, o_customer_name = customer,
            total_price = 0, o_status = O_PENDING, o_timestamp = now, o_notes = notes\<rparr>
      in (ord, st\<lparr>orders := orders st @ [ord], next_order_id := Suc (next_order_id st)\<rparr>))"

text \<open>
  One entry of the request's \<open>items\<close> list: a dictionary whose keys may be missing.
  \<open>ListField(child=DictField())\<close> validates no entry, so the quantity is the JSON value
  of the request.
\<close>

record item_data =
  it_menu_item_id :: "nat option"
  it_quantity :: "pyval option"
  it_special_instructions :: "string option"

fun validate_each_item :: "db \<Rightarrow> item_data list \<Rightarrow> error + unit" where
  "validate_each_item st [] = Inr ()"
| "validate_each_item st (item # rest) =
     (case it_menu_item_id item of
        None \<Rightarrow> Inl ValidationError
      | Some mid \<Rightarrow>
          (case it_quantity item of
             None \<Rightarrow> Inl ValidationError
           | Some q \<Rightarrow>
               (case get_menu_item st mid of
                  None \<Rightarrow> Inl ValidationError
                | Some menu_item \<Rightarrow>
                    if \<not> mi_available menu_item then Inl ValidationError
                    else validate_each_item st rest)))"

definition OrderCreateSerializer_validate_items :: "db \<Rightarrow> item_data list \<Rightarrow> error + item_data list" where
  "OrderCreateSerializer_validate_items st v =
     (if v = [] then Inl ValidationError
      else case validate_each_item st v of Inl e \<Rightarrow> Inl e | Inr _ \<Rightarrow> Inr v)"

record order_data =
  od_table :: Table
  od_customer_name :: "string option"
  od_notes :: "string option"
  od_items :: "item_data list"

text \<open>
  The loop of \<open>OrderCreateSerializer.create\<close>: \<open>MenuItem.objects.get\<close>, the key
  lookups, the insert and the product \<open>order_item.price * order_item.quantity\<close> (the
  quantity of the instance in memory, as the request gave it) raise where they fail, and
  what was written before stays written.
\<close>

fun create_order_items :: "db \<Rightarrow> Order \<Rightarrow> item_data list \<Rightarrow> decimal \<Rightarrow> (error + decimal) \<times> db" where
  "create_order_items st ord [] tot = (Inr tot, st)"
| "create_order_items st ord (item # rest) tot =
     (case it_menu_item_id item of
        None \<Rightarrow> (Inl KeyError, st)
      | Some mid \<Rightarrow>
          (case get_menu_item st mid of
             None \<Rightarrow> (Inl DoesNotExist, st)
           | Some menu_item \<Rightarrow>
               (case it_quantity item of
                  None \<Rightarrow> (Inl KeyError, st)
                | Some q \<Rightarrow>
                    (case objects_create_order_item st (o_id ord) menu_item q (mi_price menu_item)
                            (or_default (it_special_instructions item) []) of
                       (Inl e, st1) \<Rightarrow> (Inl e, st1)
                     | (Inr order_item, st1) \<Rightarrow>
                         (case decimal_mul (oi_price order_item) q of
                            Inl e \<Rightarrow> (Inl e, st1)
                          | Inr subtotal \<Rightarrow>
                              create_order_items st1 ord rest (tot + subtotal))))))"

definition OrderCreateSerializer_create :: "db \<Rightarrow> date \<Rightarrow> order_data \<Rightarrow> (error + Order) \<times> db" where
  "OrderCreateSerializer_create st now validated_data =
     (case objects_create_order st now (od_table validated_data)
             (or_default (od_customer_name validated_data) [])
             (or_default (od_notes validated_data) []) of
        (ord, st1) \<Rightarrow>
          (case create_order_items st1 ord (od_items validated_data) 0 of
             (Inl e, st2) \<Rightarrow> (Inl e, st2)
           | (Inr tot, st2) \<Rightarrow>
               let ord' = ord\<lparr>total_price := tot\<rparr>;
                   st3 = save_order st2 ord';
                   st4 = save_table st3 ((od_table validated_data)\<lparr>is_available := False\<rparr>)
               in (Inr ord', st4)))"

text \<open>
  The create action of \<open>OrderViewSet\<close>: \<open>is_valid\<close> resolves the table's primary key
  (an unknown key is a ValidationError) and runs \<open>validate_items\<close>; only then
  \<open>create\<close> runs.
\<close>

record order_request =
  orq_table :: nat
  orq_customer_name :: "string option"
  orq_notes :: "string option"
  orq_items :: "item_data list"

definition create_order :: "db \<Rightarrow> date \<Rightarrow> order_request \<Rightarrow> (error + Order) \<times> db" where
  "create_order st now req =
     (case get_table st (orq_table req) of
        None \<Rightarrow> (Inl ValidationError, st)
      | Some t \<Rightarrow>
          (case OrderCreateSerializer_validate_items st (orq_items req) of
             Inl e \<Rightarrow> (Inl e, st)
           | Inr v \<Rightarrow>
               OrderCreateSerializer_create st now
                 \<lparr>od_table = t, od_customer_name = orq_customer_name req,
                  od_notes = orq_notes req, od_items = v\<rparr>))"

record add_item_request =
  ai_menu_item_id :: "nat option"
  ai_quantity :: "pyval option"
  ai_special_instructions :: "string option"

definition add_item :: "db \<Rightarrow> nat \<Rightarrow> add_item_request \<Rightarrow> (error + OrderItem) \<times> db" where
  "add_item st pk req =
     (case get_order st pk of
        None \<Rightarrow> (Inl NotFoundError, st)
      | Some ord \<Rightarrow>
          if o_status ord = O_SERVED \<or> o_status ord = O_CANCELLED then (Inl InvalidStateError, st)
          else
            (case ai_menu_item_id req of
               None \<Rightarrow> (Inl NotFoundError, st)
             | Some mid \<Rightarrow>
                 (case find (\<lambda>m. mi_id m = mid \<and> mi_available m) (menu_items st) of
                    None \<Rightarrow> (Inl NotFoundError, st)
                  | Some menu_item \<Rightarrow>
                      (case objects_create_order_item st (o_id ord) menu_item
                              (or_default (ai_quantity req) (PyInt 1)) (mi_price menu_item)
                              (or_default (ai_special_instructions req) []) of
                         (Inl e, st1) \<Rightarrow> (Inl e, st1)
                       | (Inr order_item, st1) \<Rightarrow>
                           (case calculate_total st1 ord of
                              (tot, st2) \<Rightarrow> (Inr order_item, st2))))))"

definition remove_item :: "db \<Rightarrow> nat \<Rightarrow> nat option \<Rightarrow> (error + unit) \<times> db" where
  "remove_item st pk item_id =
     (case get_order st pk of
        None \<Rightarrow> (Inl NotFoundError, st)
      | Some ord \<Rightarrow>
          if o_status ord = O_SERVED \<or> o_status ord = O_CANCELLED then (Inl InvalidStateError, st)
          else
            (case item_id of
               None \<Rightarrow> (Inl NotFoundError, st)
             | Some iid \<Rightarrow>
                 (case find (\<lambda>i. oi_id i = iid \<and> oi_order i = o_id ord) (order_items st) of
                    None \<Rightarrow> (Inl NotFoundError, st)
                  | Some order_item \<Rightarrow>
                      let st1 = st\<lparr>order_items :=
                                   filter (\<lambda>i. oi_id i \<noteq> oi_id order_item) (order_items st)\<rparr>
                      in (case calculate_total st1 ord of
                            (tot, st2) \<Rightarrow> (Inr (), st2)))))"

text \<open>
  A sequence of requests against the store. Every request leaves the store its operation
  returned, also when it fails.
\<close>

datatype order_op =
  CreateOrder date order_request
  | AddItem nat add_item_request
  | RemoveItem nat "nat option"

fun apply_op :: "db \<Rightarrow> order_op \<Rightarrow> db" where
  "apply_op st (CreateOrder now req) = snd (create_order st now req)"
| "apply_op st (AddItem pk req) = snd (add_item st pk req)"
| "apply_op st (RemoveItem pk item_id) = snd (remove_item st pk item_id)"

definition run_ops :: "db \<Rightarrow> order_op list \<Rightarrow> db" where
  "run_ops st ops = foldl apply_op st ops"

text \<open>A request whose quantities are Python ints where it creates an order.\<close>

fun integer_quantities :: "order_op \<Rightarrow> bool" where
  "integer_quantities (CreateOrder now req) =
     list_all (\<lambda>item. case it_quantity item of None \<Rightarrow> True | Some q \<Rightarrow> is_int q)
       (orq_items req)"
| "integer_quantities (AddItem pk req) = True"
| "integer_quantities (RemoveItem pk item_id) = True"

text \<open>
  The invariant of the order totals, and what the store guarantees about keys: order
  item keys are unique, and every key in use is below its table's counter.
\<close>

definition totals_consistent :: "db \<Rightarrow> bool" where
  "totals_consistent st =
     (\<forall>ord \<in> set (orders st). total_price ord = items_total (order_items_of st (o_id ord)))"

definition keys_consistent :: "db \<Rightarrow> bool" where
  "keys_consistent st =
     (distinct (map oi_id (order_items st))
      \<and> (\<forall>i \<in> set (order_items st). oi_id i < next_order_item_id st \<and> oi_order i < next_order_id st)
      \<and> (\<forall>ord \<in> set (orders st). o_id ord < next_order_id st))"

section \<open>Reservations (ReservationSerializer, ReservationViewSet)\<close>

text \<open>
  A request of the reservation endpoints: every field may be missing, and the table is
  named by its primary key. (Requests that carry an e-mail address are not modelled.)
\<close>

record reservation_request =
  rr_customer_name :: "string option"
  rr_customer_phone :: "string option"
  rr_table :: "nat option"
  rr_date :: "date option"
  rr_time :: "time_of_day option"
  rr_party_size :: "int option"
  rr_status :: "reservation_status option"
  rr_special_requests :: "string option"

text \<open>
  The attributes \<open>validate\<close> receives: the fields of the request that passed their own
  validation, with \<open>table\<close> the Table instance the primary key resolved to.
\<close>

record reservation_data =
  rd_customer_name :: "string option"
  rd_customer_phone :: "string option"
  rd_table :: "Table option"
  rd_date :: "date option"
  rd_time :: "time_of_day option"
  rd_party_size :: "int option"
  rd_status :: "reservation_status option"
  rd_special_requests :: "string option"

text \<open>
  The serializer field of a \<open>CharField\<close> or \<open>TextField\<close> column: the text is stripped;
  an empty result is refused unless the column has \<open>blank=True\<close>; otherwise it must
  respect \<open>max_length\<close> and hold no NUL character.
\<close>

definition char_field :: "bool \<Rightarrow> nat option \<Rightarrow> string \<Rightarrow> error + string" where
  "char_field allow_blank max_length data =
     (let v = py_strip data
      in if v = [] then (if allow_blank then Inr [] else Inl ValidationError)
         else if (case max_length of None \<Rightarrow> False | Some n \<Rightarrow> n < length v)
                 \<or> CHR 0x00 \<in> set v
         then Inl ValidationError
         else Inr v)"

definition optional_field :: "('a \<Rightarrow> error + 'b) \<Rightarrow> 'a option \<Rightarrow> error + 'b option" where
  "optional_field f v =
     (case v of
        None \<Rightarrow> Inr None
      | Some x \<Rightarrow> (case f x of Inl e \<Rightarrow> Inl e | Inr y \<Rightarrow> Inr (Some y)))"

text \<open>
  What \<open>is_valid\<close> does before it calls \<open>validate\<close>, from the field declarations of
  \<open>Reservation\<close> (models.py 48-56): unless the update is partial the fields without a
  default are required; \<open>customer_name\<close> and \<open>customer_phone\<close> are non-blank texts of at
  most 200 and 20 characters; the table's key must resolve; \<open>party_size\<close> carries
  \<open>MinValueValidator(1)\<close>; \<open>special_requests\<close> may be blank. Every failure is a
  ValidationError.
\<close>

definition ReservationSerializer_to_internal_value ::
  "db \<Rightarrow> bool \<Rightarrow> reservation_request \<Rightarrow> error + reservation_data" where
  "ReservationSerializer_to_internal_value st partial req =
     (if \<not> partial \<and> (rr_customer_name req = None \<or> rr_customer_phone req = None
                        \<or> rr_table req = None \<or> rr_date req = None \<or> rr_time req = None
                        \<or> rr_party_size req = None)
      then Inl ValidationError
      else
        case optional_field (char_field False (Some 200)) (rr_customer_name req) of
          Inl e \<Rightarrow> Inl e
        | Inr name \<Rightarrow>
        case optional_field (char_field False (Some 20)) (rr_customer_phone req) of
          Inl e \<Rightarrow> Inl e
        | Inr phone \<Rightarrow>
        case optional_field
               (\<lambda>k. case get_table st k of None \<Rightarrow> Inl ValidationError | Some t \<Rightarrow> Inr t)
               (rr_table req) of
          Inl e \<Rightarrow> Inl e
        | Inr tbl \<Rightarrow>
        case optional_field (\<lambda>p. if p < 1 then Inl ValidationError else Inr p)
               (rr_party_size req) of
          Inl e \<Rightarrow> Inl e
        | Inr party \<Rightarrow>
        case optional_field (char_field True None) (rr_special_requests req) of
          Inl e \<Rightarrow> Inl e
        | Inr special \<Rightarrow>
            Inr \<lparr>rd_customer_name = name, rd_customer_phone = phone, rd_table = tbl,
                 rd_date = rr_date req, rd_time = rr_time req, rd_party_size = party,
                 rd_status = rr_status req, rd_special_requests = special\<rparr>)"

text \<open>
  \<open>ReservationSerializer.validate\<close> (serializers.py 28-53). \<open>data.get(k)\<close> is falsy for
  a missing key and for the integer 0; dates, times and model instances are always truthy.
\<close>

definition capacity_exceeded :: "reservation_data \<Rightarrow> bool" where
  "capacity_exceeded data =
     (case rd_party_size data of
        None \<Rightarrow> False
      | Some p \<Rightarrow>
          (case rd_table data of
             None \<Rightarrow> False
           | Some t \<Rightarrow> p \<noteq> 0 \<and> p > capacity t))"

definition existing_reservations ::
  "db \<Rightarrow> Reservation option \<Rightarrow> Table \<Rightarrow> date \<Rightarrow> time_of_day \<Rightarrow> Reservation list" where
  "existing_reservations st inst t d tm =
     (let existing = filter (\<lambda>r. r_table r = t_id t \<and> r_date r = d \<and> r_time r = tm
                                  \<and> r_status r = R_BOOKED) (reservations st)
      in case inst of
           None \<Rightarrow> existing
         | Some i \<Rightarrow> filter (\<lambda>r. r_id r \<noteq> r_id i) existing)"

definition ReservationSerializer_validate ::
  "db \<Rightarrow> Reservation option \<Rightarrow> reservation_data \<Rightarrow> error + reservation_data" where
  "ReservationSerializer_validate st inst data =
     (if capacity_exceeded data then Inl ValidationError
      else
        (case rd_table data of
           None \<Rightarrow> Inr data
         | Some t \<Rightarrow>
             (case rd_date data of
                None \<Rightarrow> Inr data
              | Some d \<Rightarrow>
                  (case rd_time data of
                     None \<Rightarrow> Inr data
                   | Some tm \<Rightarrow>
                       if existing_reservations st inst t d tm \<noteq> [] then Inl ValidationError
                       else Inr data))))"

text \<open>
  The create action: \<open>Reservation.objects.create\<close> of the validated data, the status
  defaulting to BOOKED. A required column left empty is refused by the store.
\<close>

definition objects_create_reservation :: "db \<Rightarrow> reservation_data \<Rightarrow> (error + Reservation) \<times> db" where
  "objects_create_reservation st v =
     (case rd_customer_name v of None \<Rightarrow> (Inl IntegrityError, st) | Some n \<Rightarrow>
      case rd_customer_phone v of None \<Rightarrow> (Inl IntegrityError, st) | Some ph \<Rightarrow>
      case rd_table v of None \<Rightarrow> (Inl IntegrityError, st) | Some t \<Rightarrow>
      case rd_date v of None \<Rightarrow> (Inl IntegrityError, st) | Some d \<Rightarrow>
      case rd_time v of None \<Rightarrow> (Inl IntegrityError, st) | Some tm \<Rightarrow>
      case rd_party_size v of None \<Rightarrow> (Inl IntegrityError, st) | Some p \<Rightarrow>
        let r = \<lparr>r_id = next_reservation_id st, r_customer_name = n, r_customer_phone = ph,
                 r_table = t_id t, r_date = d, r_time = tm, r_party_size = p,
                 r_status = or_default (rd_status v) R_BOOKED,
                 r_special_requests = or_default (rd_special_requests v) []\<rparr>
        in (Inr r, st\<lparr>reservations := reservations st @ [r],
                       next_reservation_id := Suc (next_reservation_id st)\<rparr>))"

definition create_reservation :: "db \<Rightarrow> reservation_request \<Rightarrow> (error + Reservation) \<times> db" where
  "create_reservation st req =
     (case ReservationSerializer_to_internal_value st False req of
        Inl e \<Rightarrow> (Inl e, st)
      | Inr data \<Rightarrow>
          (case ReservationSerializer_validate st None data of
             Inl e \<Rightarrow> (Inl e, st)
           | Inr v \<Rightarrow> objects_create_reservation st v))"

text \<open>
  The update actions (\<open>partial\<close> for PATCH): the instance takes the fields the validated
  data holds and is saved.
\<close>

definition apply_reservation_data :: "Reservation \<Rightarrow> reservation_data \<Rightarrow> Reservation" where
  "apply_reservation_data inst v =
     inst\<lparr>r_customer_name := or_default (rd_customer_name v) (r_customer_name inst),
          r_customer_phone := or_default (rd_customer_phone v) (r_customer_phone inst),
          r_table := (case rd_table v of None \<Rightarrow> r_table inst | Some t \<Rightarrow> t_id t),
          r_date := or_default (rd_date v) (r_date inst),
          r_time := or_default (rd_time v) (r_time inst),
          r_party_size := or_default (rd_party_size v) (r_party_size inst),
          r_status := or_default (rd_status v) (r_status inst),
          r_special_requests := or_default (rd_special_requests v) (r_special_requests inst)\<rparr>"

definition update_reservation ::
  "db \<Rightarrow> nat \<Rightarrow> bool \<Rightarrow> reservation_request \<Rightarrow> (error + Reservation) \<times> db" where
  "update_reservation st pk partial req =
     (case get_reservation st pk of
        None \<Rightarrow> (Inl NotFoundError, st)
      | Some inst \<Rightarrow>
          (case ReservationSerializer_to_internal_value st partial req of
             Inl e \<Rightarrow> (Inl e, st)
           | Inr data \<Rightarrow>
               (case ReservationSerializer_validate st (Some inst) data of
                  Inl e \<Rightarrow> (Inl e, st)
                | Inr v \<Rightarrow>
                    let r = apply_reservation_data inst v
                    in (Inr r, save_reservation st r))))"

definition cancel :: "db \<Rightarrow> nat \<Rightarrow> (error + Reservation) \<times> db" where
  "cancel st pk =
     (case get_reservation st pk of
        None \<Rightarrow> (Inl NotFoundError, st)
      | Some reservation \<Rightarrow>
          let r = reservation\<lparr>r_status := R_CANCELLED\<rparr>
          in (Inr r, save_reservation st r))"

section \<open>Reports (ReportViewSet.daily_sales)\<close>




section \<open>A sample store\<close>

text \<open>
  Two tables, four menu items (the soup is off the menu), three orders of one item each,
  a pending payment of order 1, a completed payment of order 2, no payment of order 3, and
  two booked reservations of table 1 on different days.
\<close>

definition demo_menu :: "MenuItem list" where
  "demo_menu =
     [\<lparr>mi_id = 1, mi_name = ''Burger'', mi_price = 1299 / 100, mi_available = True\<rparr>,
      \<lparr>mi_id = 2, mi_name = ''Fries'', mi_price = 499 / 100, mi_available = True\<rparr>,
      \<lparr>mi_id = 3, mi_name = ''Soup'', mi_price = 13 / 2, mi_available = False\<rparr>,
      \<lparr>mi_id = 4, mi_name = ''Test Item'', mi_price = 20, mi_available = True\<rparr>]"

definition demo_tables :: "Table list" where
  "demo_tables =
     [\<lparr>t_id = 1, table_number = 1, capacity = 4, is_available = True\<rparr>,
      \<lparr>t_id = 2, table_number = 2, capacity = 2, is_available = False\<rparr>]"

definition empty_db :: db where
  "empty_db =
     \<lparr>menu_items = demo_menu, tables = demo_tables, reservations = [], orders = [],
      order_items = [], payments = [], next_reservation_id = 1, next_order_id = 1,
      next_order_item_id = 1, next_payment_id = 1\<rparr>"

definition demo_order1 :: Order where
  "demo_order1 = \<lparr>o_id = 1, o_table = 2, o_customer_name = ''Ann'', total_price = 20,
                   o_status = O_PENDING, o_timestamp = 100, o_notes = []\<rparr>"

definition demo_order2 :: Order where
  "demo_order2 = \<lparr>o_id = 2, o_table = 1, o_customer_name = ''Bob'', total_price = 1299 / 100,
                   o_status = O_SERVED, o_timestamp = 100, o_notes = []\<rparr>"

definition demo_order3 :: Order where
  "demo_order3 = \<lparr>o_id = 3, o_table = 2, o_customer_name = ''Test Customer'', total_price = 20,
                   o_status = O_PENDING, o_timestamp = 101, o_notes = []\<rparr>"

definition demo_payment1 :: Payment where
  "demo_payment1 = \<lparr>p_id = 1, p_order = 1, amount = 20, p_method = CARD, p_status = P_PENDING,
                     transaction_id = None, tip_amount = 0, tax_amount = 0, discount_amount = 0,
                     final_amount = 20, payment_date = 100, p_notes = []\<rparr>"

definition demo_payment2 :: Payment where
  "demo_payment2 = \<lparr>p_id = 2, p_order = 2, amount = 1299 / 100, p_method = CASH,
                     p_status = P_COMPLETED, transaction_id = Some ''TXN1'', tip_amount = 0,
                     tax_amount = 0, discount_amount = 0, final_amount = 1299 / 100,
                     payment_date = 100, p_notes = []\<rparr>"

definition demo_reservation1 :: Reservation where
  "demo_reservation1 = \<lparr>r_id = 1, r_customer_name = ''First Customer'',
                         r_customer_phone = ''+1111111111'', r_table = 1, r_date = 200,
                         r_time = 64800, r_party_size = 4, r_status = R_BOOKED,
                         r_special_requests = []\<rparr>"

definition demo_reservation2 :: Reservation where
  "demo_reservation2 = \<lparr>r_id = 2, r_customer_name = ''Test Customer'',
                         r_customer_phone = ''+1234567890'', r_table = 1, r_date = 201,
                         r_time = 68400, r_party_size = 2, r_status = R_BOOKED,
                         r_special_requests = []\<rparr>"

definition demo_db :: db where
  "demo_db =
     \<lparr>menu_items = demo_menu, tables = demo_tables,
      reservations = [demo_reservation1, demo_reservation2],
      orders = [demo_order1, demo_order2, demo_order3],
      order_items =
        [\<lparr>oi_id = 1, oi_order = 1, oi_menu_item = 4, quantity = 1, oi_price = 20,
          special_instructions = []\<rparr>,
         \<lparr>oi_id = 2, oi_order = 2, oi_menu_item = 1, quantity = 1, oi_price = 1299 / 100,
          special_instructions = []\<rparr>,
         \<lparr>oi_id = 3, oi_order = 3, oi_menu_item = 4, quantity = 1, oi_price = 20,
          special_instructions = []\<rparr>],
      payments = [demo_payment1, demo_payment2],
      next_reservation_id = 3, next_order_id = 4, next_order_item_id = 4,
      next_payment_id = 3\<rparr>"

text \<open>
  A strict-create request for order 1 that arrives with the status COMPLETED, and the
  create request of \<open>test_create_payment\<close> (tests.py): order total 20.00, tip 3.00,
  discount 0.00.
\<close>

definition demo_strict :: payment_data where
  "demo_strict = \<lparr>pd_order = demo_order1, pd_amount = 20, pd_method = CASH,
     pd_status = Some P_COMPLETED, pd_transaction_id = None, pd_tip_amount = Some 3,
     pd_tax_amount = Some (8 / 5), pd_discount_amount = None, pd_notes = None\<rparr>"

definition demo_payment_request :: payment_request where
  "demo_payment_request = \<lparr>rq_order = 3, rq_method = CARD, rq_tip_amount = Some 3,
     rq_discount_amount = Some 0, rq_notes = None\<rparr>"

text \<open>
  Requests against the sample store: an order for table 1, and a reservation of table 1
  for the slot of reservation 1 with a party of the given size.
\<close>

definition demo_item :: "nat \<Rightarrow> pyval \<Rightarrow> item_data" where
  "demo_item mid q = \<lparr>it_menu_item_id = Some mid, it_quantity = Some q,
                       it_special_instructions = None\<rparr>"

definition demo_order_request :: "item_data list \<Rightarrow> order_request" where
  "demo_order_request its = \<lparr>orq_table = 1, orq_customer_name = Some ''Test Customer'',
                              orq_notes = Some ''No onions'', orq_items = its\<rparr>"

definition demo_reservation_request :: "int \<Rightarrow> reservation_request" where
  "demo_reservation_request p =
     \<lparr>rr_customer_name = Some ''Second Customer'', rr_customer_phone = Some ''+2222222222'',
      rr_table = Some 1, rr_date = Some 200, rr_time = Some 64800, rr_party_size = Some p,
      rr_status = None, rr_special_requests = None\<rparr>"

text \<open>
  Two partial updates: one that carries only a party size of 5, and one that carries only
  the date and time of reservation 1.
\<close>

definition empty_reservation_request :: reservation_request where
  "empty_reservation_request =
     \<lparr>rr_customer_name = None, rr_customer_phone = None, rr_table = None, rr_date = None,
      rr_time = None, rr_party_size = None, rr_status = None, rr_special_requests = None\<rparr>"

definition patch_party_size :: reservation_request where
  "patch_party_size = empty_reservation_request\<lparr>rr_party_size := Some 5\<rparr>"

definition patch_date_time :: reservation_request where
  "patch_date_time = empty_reservation_request\<lparr>rr_date := Some 200, rr_time := Some 64800\<rparr>"

text \<open>
  A sequence of order requests against the store without orders: an order of two burgers
  and one portion of fries, then one more item for that order, then the removal of the
  fries.
\<close>

definition demo_ops :: "order_op list" where
  "demo_ops =
     [CreateOrder 100 (demo_order_request [demo_item 1 (PyInt 2), demo_item 2 (PyInt 1)]),
      AddItem 1 \<lparr>ai_menu_item_id = Some 4, ai_quantity = Some (PyStr ''1''),
                 ai_special_instructions = None\<rparr>,
      RemoveItem 1 (Some 2)]"

section \<open>Facts about queries and saves\<close>

lemma get_by_update_row:
  "get_by key (update_row key row rows) k =
     (if k = key row then (case get_by key rows k of None \<Rightarrow> None | Some _ \<Rightarrow> Some row)
      else get_by key rows k)"
  by (induction rows) (auto simp: get_by_def update_row_def)

lemma get_by_Some_key: "get_by key rows k = Some r \<Longrightarrow> key r = k \<and> r \<in> set rows"
  by (induction rows) (auto simp: get_by_def split: if_splits)

lemma get_by_key: "get_by key rows k = Some r \<Longrightarrow> key r = k"
  using get_by_Some_key by fastforce

lemma demo_lookups:
  "get_payment demo_db 1 = Some demo_payment1"
  "get_payment demo_db 2 = Some demo_payment2"
  "get_order demo_db 1 = Some demo_order1"
  "get_order demo_db 2 = Some demo_order2"
  "get_order demo_db 3 = Some demo_order3"
  "get_table demo_db 1 = Some \<lparr>t_id = 1, table_number = 1, capacity = 4, is_available = True\<rparr>"
  "get_table demo_db 2 = Some \<lparr>t_id = 2, table_number = 2, capacity = 2, is_available = False\<rparr>"
  by (simp_all add: demo_db_def get_payment_def get_order_def get_table_def get_by_def
      demo_tables_def demo_payment1_def demo_payment2_def demo_order1_def demo_order2_def
      demo_order3_def)

section \<open>Completing and refunding a payment\<close>

text \<open>
  What \<open>complete_payment\<close> returns and stores for a payment that is not yet completed,
  when the payment's order and the order's table are in the store (the foreign keys
  resolve).
\<close>

lemma complete_payment_result:
  assumes "get_payment st pk = Some payment" and "p_status payment \<noteq> P_COMPLETED"
    and "get_order st (p_order payment) = Some ord" and "get_table st (o_table ord) = Some t"
  shows "\<exists>st'. complete_payment st pk tid =
            (Inr (payment\<lparr>p_status := P_COMPLETED,
                           transaction_id := Some (case tid of None \<Rightarrow> [] | Some x \<Rightarrow> x)\<rparr>), st')
     \<and> get_payment st' pk =
           Some (payment\<lparr>p_status := P_COMPLETED,
                          transaction_id := Some (case tid of None \<Rightarrow> [] | Some x \<Rightarrow> x)\<rparr>)
     \<and> get_order st' (p_order payment) = Some (ord\<lparr>o_status := O_SERVED\<rparr>)
     \<and> get_table st' (o_table ord) = Some (t\<lparr>is_available := True\<rparr>)"
proof -
  have k: "p_id payment = pk" using assms(1) by (simp add: get_payment_def get_by_key)
  have ko: "o_id ord = p_order payment" using assms(3) by (simp add: get_order_def get_by_key)
  have kt: "t_id t = o_table ord" using assms(4) by (simp add: get_table_def get_by_key)
  show ?thesis
    using assms k ko kt
    by (simp add: complete_payment_def Let_def save_payment_def save_order_def save_table_def
        get_payment_def get_order_def get_table_def get_by_update_row)
qed

text \<open>
  C2. For a stored payment that is not COMPLETED and whose foreign keys resolve (its
  order and the order's table are rows of the store), \<open>complete_payment\<close> succeeds and
  all four effects are in the store it returns: the payment is COMPLETED and holds the
  transaction id of the request (the empty string when the request has none), the
  payment's order is SERVED, and that order's table is available. There is no outcome with
  only some of them.
\<close>

theorem complete_payment_effects:
  assumes "get_payment st pk = Some payment" and "p_status payment \<noteq> P_COMPLETED"
    and "get_order st (p_order payment) = Some ord" and "get_table st (o_table ord) = Some t"
  shows "\<exists>payment' st'. complete_payment st pk tid = (Inr payment', st')
     \<and> get_payment st' pk = Some payment'
     \<and> p_status payment' = P_COMPLETED
     \<and> transaction_id payment' = Some (case tid of None \<Rightarrow> [] | Some x \<Rightarrow> x)
     \<and> (\<exists>ord'. get_order st' (p_order payment') = Some ord' \<and> o_status ord' = O_SERVED
           \<and> (\<exists>t'. get_table st' (o_table ord') = Some t' \<and> is_available t'))"
proof -
  obtain st' where r: "complete_payment st pk tid =
            (Inr (payment\<lparr>p_status := P_COMPLETED,
                           transaction_id := Some (case tid of None \<Rightarrow> [] | Some x \<Rightarrow> x)\<rparr>), st')"
     "get_payment st' pk =
           Some (payment\<lparr>p_status := P_COMPLETED,
                          transaction_id := Some (case tid of None \<Rightarrow> [] | Some x \<Rightarrow> x)\<rparr>)"
     "get_order st' (p_order payment) = Some (ord\<lparr>o_status := O_SERVED\<rparr>)"
     "get_table st' (o_table ord) = Some (t\<lparr>is_available := True\<rparr>)"
    using complete_payment_result [OF assms, of tid] by blast
  show ?thesis using r by simp
qed

theorem complete_payment_effects_witness:
  "\<exists>payment' st'. complete_payment demo_db 1 (Some ''TXN123456'') = (Inr payment', st')
     \<and> get_payment st' 1 = Some payment'
     \<and> p_status payment' = P_COMPLETED
     \<and> transaction_id payment' = Some ''TXN123456''
     \<and> (\<exists>ord'. get_order st' (p_order payment') = Some ord' \<and> o_status ord' = O_SERVED
           \<and> (\<exists>t'. get_table st' (o_table ord') = Some t' \<and> is_available t'))"
proof -
  have p: "p_status demo_payment1 \<noteq> P_COMPLETED" "p_order demo_payment1 = 1"
    by (simp_all add: demo_payment1_def)
  have o: "o_table demo_order1 = 2" by (simp add: demo_order1_def)
  have po: "get_order demo_db (p_order demo_payment1) = Some demo_order1"
    using demo_lookups(3) by (simp add: p)
  have pt: "get_table demo_db (o_table demo_order1) =
              Some \<lparr>t_id = 2, table_number = 2, capacity = 2, is_available = False\<rparr>"
    using demo_lookups(7) by (simp add: o)
  show ?thesis
    using complete_payment_effects [OF demo_lookups(1) p(1) po pt, of "Some ''TXN123456''"]
    by simp
qed

text \<open>
  C5. \<open>complete_payment\<close> on a payment whose status is already COMPLETED answers with the
  400 response (InvalidStateError) and writes nothing: the store it returns is the store
  it was given, so the payment, its order and the order's table keep their values.
\<close>

theorem complete_payment_already_completed:
  assumes "get_payment st pk = Some payment" and "p_status payment = P_COMPLETED"
  shows "complete_payment st pk tid = (Inl InvalidStateError, st)"
  using assms by (simp add: complete_payment_def)

theorem complete_payment_already_completed_witness:
  "complete_payment demo_db 2 (Some ''TXN2'') = (Inl InvalidStateError, demo_db)"
proof -
  have p: "p_status demo_payment2 = P_COMPLETED" by (simp add: demo_payment2_def)
  show ?thesis
    using complete_payment_already_completed [OF demo_lookups(2) p] by simp
qed

text \<open>
  C6. \<open>refund\<close> of a stored payment: when its status is not COMPLETED the answer is the
  400 response (InvalidStateError) and the store is unchanged; when it is COMPLETED the
  payment becomes REFUNDED, its order becomes CANCELLED, and the table rows are the ones
  from before, so the order's table keeps its availability flag.
\<close>

theorem refund_effects:
  assumes "get_payment st pk = Some payment"
  shows "(p_status payment \<noteq> P_COMPLETED \<longrightarrow> refund st pk = (Inl InvalidStateError, st))
     \<and> (p_status payment = P_COMPLETED \<and> get_order st (p_order payment) = Some ord \<longrightarrow>
          (\<exists>st'. refund st pk = (Inr (payment\<lparr>p_status := P_REFUNDED\<rparr>), st')
             \<and> get_payment st' pk = Some (payment\<lparr>p_status := P_REFUNDED\<rparr>)
             \<and> get_order st' (p_order payment) = Some (ord\<lparr>o_status := O_CANCELLED\<rparr>)
             \<and> tables st' = tables st))"
proof -
  have k: "p_id payment = pk" using assms(1) by (simp add: get_payment_def get_by_key)
  have ko: "get_order st (p_order payment) = Some ord \<Longrightarrow> o_id ord = p_order payment"
    by (simp add: get_order_def get_by_key)
  show ?thesis
    using assms k ko
    by (auto simp add: refund_def Let_def save_payment_def save_order_def
        get_payment_def get_order_def get_by_update_row)
qed

theorem refund_effects_witness:
  "refund demo_db 1 = (Inl InvalidStateError, demo_db)
   \<and> (\<exists>st'. refund demo_db 2 = (Inr (demo_payment2\<lparr>p_status := P_REFUNDED\<rparr>), st')
        \<and> get_payment st' 2 = Some (demo_payment2\<lparr>p_status := P_REFUNDED\<rparr>)
        \<and> get_order st' 2 = Some (demo_order2\<lparr>o_status := O_CANCELLED\<rparr>)
        \<and> tables st' = demo_tables)"
proof -
  have p1: "p_status demo_payment1 \<noteq> P_COMPLETED" by (simp add: demo_payment1_def)
  have p2: "p_status demo_payment2 = P_COMPLETED" "p_order demo_payment2 = 2"
    by (simp_all add: demo_payment2_def)
  have t: "tables demo_db = demo_tables" by (simp add: demo_db_def)
  show ?thesis
    using refund_effects [OF demo_lookups(1), of demo_order1]
          refund_effects [OF demo_lookups(2), of demo_order2]
    by (simp add: p1 p2 t demo_lookups)
qed

section \<open>Creating a payment\<close>

text \<open>
  C10. \<open>PaymentSerializer.create\<close> with a validated status COMPLETED, for an order of the
  store that has no payment yet: the payment is created, the order becomes SERVED, and
  the table rows are those from before, so the order's table keeps its flag. By
  contrast, \<open>complete_payment\<close> on a not yet completed payment of that order (in any store
  where its table resolves) leaves the order SERVED and the table available.
\<close>

theorem strict_create_completed:
  assumes "pd_status vd = Some P_COMPLETED"
    and "get_order st (o_id (pd_order vd)) = Some (pd_order vd)"
    and "get_by p_order (payments st) (o_id (pd_order vd)) = None"
  shows "(\<exists>payment st'. PaymentSerializer_create st now vd = (Inr payment, st')
           \<and> p_status payment = P_COMPLETED
           \<and> p_order payment = o_id (pd_order vd)
           \<and> get_order st' (o_id (pd_order vd)) = Some ((pd_order vd)\<lparr>o_status := O_SERVED\<rparr>)
           \<and> tables st' = tables st)
     \<and> (get_payment st1 pk = Some payment1 \<and> p_status payment1 \<noteq> P_COMPLETED
           \<and> get_order st1 (p_order payment1) = Some (pd_order vd)
           \<and> get_table st1 (o_table (pd_order vd)) = Some t \<longrightarrow>
           (\<exists>payment' st'. complete_payment st1 pk tid = (Inr payment', st')
              \<and> get_order st' (p_order payment1) = Some ((pd_order vd)\<lparr>o_status := O_SERVED\<rparr>)
              \<and> get_table st' (o_table (pd_order vd)) = Some (t\<lparr>is_available := True\<rparr>)))"
proof (intro conjI impI)
  show "\<exists>payment st'. PaymentSerializer_create st now vd = (Inr payment, st')
           \<and> p_status payment = P_COMPLETED
           \<and> p_order payment = o_id (pd_order vd)
           \<and> get_order st' (o_id (pd_order vd)) = Some ((pd_order vd)\<lparr>o_status := O_SERVED\<rparr>)
           \<and> tables st' = tables st"
    using assms
    by (simp add: PaymentSerializer_create_def objects_create_payment_def calculate_final_amount_def
      Let_def or_default_def save_payment_def save_order_def get_order_def get_by_update_row)
next
  assume a: "get_payment st1 pk = Some payment1 \<and> p_status payment1 \<noteq> P_COMPLETED
           \<and> get_order st1 (p_order payment1) = Some (pd_order vd)
           \<and> get_table st1 (o_table (pd_order vd)) = Some t"
  then show "\<exists>payment' st'. complete_payment st1 pk tid = (Inr payment', st')
              \<and> get_order st' (p_order payment1) = Some ((pd_order vd)\<lparr>o_status := O_SERVED\<rparr>)
              \<and> get_table st' (o_table (pd_order vd)) = Some (t\<lparr>is_available := True\<rparr>)"
    using complete_payment_result [of st1 pk payment1 "pd_order vd" t tid] by blast
qed

theorem strict_create_completed_witness:
  "(\<exists>payment st'. PaymentSerializer_create (demo_db\<lparr>payments := []\<rparr>) 101 demo_strict = (Inr payment, st')
           \<and> p_status payment = P_COMPLETED
           \<and> p_order payment = 1
           \<and> get_order st' 1 = Some (demo_order1\<lparr>o_status := O_SERVED\<rparr>)
           \<and> get_table st' 2 = Some \<lparr>t_id = 2, table_number = 2, capacity = 2, is_available = False\<rparr>)
   \<and> (\<exists>payment' st'. complete_payment demo_db 1 None = (Inr payment', st')
           \<and> get_order st' 1 = Some (demo_order1\<lparr>o_status := O_SERVED\<rparr>)
           \<and> get_table st' 2 = Some \<lparr>t_id = 2, table_number = 2, capacity = 2, is_available = True\<rparr>)"
proof -
  let ?t = "\<lparr>t_id = 2, table_number = 2, capacity = 2, is_available = False\<rparr>"
  have s: "pd_status demo_strict = Some P_COMPLETED" "pd_order demo_strict = demo_order1"
    by (simp_all add: demo_strict_def)
  have o1: "o_id demo_order1 = 1" "o_table demo_order1 = 2" by (simp_all add: demo_order1_def)
  have p1: "p_status demo_payment1 \<noteq> P_COMPLETED" "p_order demo_payment1 = 1"
    by (simp_all add: demo_payment1_def)
  have g: "get_order (demo_db\<lparr>payments := []\<rparr>) (o_id (pd_order demo_strict)) = Some (pd_order demo_strict)"
    using demo_lookups(3) by (simp add: s o1 get_order_def)
  have n: "get_by p_order (payments (demo_db\<lparr>payments := []\<rparr>)) (o_id (pd_order demo_strict)) = None"
    by (simp add: get_by_def)
  have gt: "get_table st' 2 = Some ?t" if "tables st' = tables (demo_db\<lparr>payments := []\<rparr>)" for st'
    using that demo_lookups(7) by (simp add: get_table_def)
  have c: "get_payment demo_db 1 = Some demo_payment1 \<and> p_status demo_payment1 \<noteq> P_COMPLETED
           \<and> get_order demo_db (p_order demo_payment1) = Some (pd_order demo_strict)
           \<and> get_table demo_db (o_table (pd_order demo_strict)) = Some ?t"
    using demo_lookups(1,3,7) by (simp add: s o1 p1)
  note th = strict_create_completed [OF s(1) g n, of 101 demo_db 1 demo_payment1 ?t None]
  from th have a: "\<exists>payment st'. PaymentSerializer_create (demo_db\<lparr>payments := []\<rparr>) 101 demo_strict = (Inr payment, st')
           \<and> p_status payment = P_COMPLETED
           \<and> p_order payment = 1
           \<and> get_order st' 1 = Some (demo_order1\<lparr>o_status := O_SERVED\<rparr>)
           \<and> get_table st' 2 = Some ?t"
    using gt by (auto simp add: s o1)
  from th c have b: "\<exists>payment' st'. complete_payment demo_db 1 None = (Inr payment', st')
           \<and> get_order st' 1 = Some (demo_order1\<lparr>o_status := O_SERVED\<rparr>)
           \<and> get_table st' 2 = Some (?t\<lparr>is_available := True\<rparr>)"
    by (auto simp add: s o1 p1)
  from a b show ?thesis by simp
qed

text \<open>
  C3. The create action on the data of \<open>test_create_payment\<close>: order 3 is PENDING, has a
  total of 20.00 and no payment, the tip is 3.00 and the discount 0.00. The tax line of
  \<open>PaymentCreateSerializer.create\<close> multiplies the Decimal total by the float literal
  0.08, which raises TypeError before any row is written: no payment exists afterwards,
  where the test and the specification expect one with a final amount of 24.60.
\<close>

theorem create_payment_type_error:
  "create_payment demo_db 101 demo_payment_request = (Inl TypeError, demo_db)"
proof -
  have "PaymentCreateSerializer_validate_order demo_db demo_order3 = Inr demo_order3"
    by (simp add: PaymentCreateSerializer_validate_order_def demo_db_def demo_order3_def
        get_by_def demo_payment1_def demo_payment2_def)
  then show ?thesis
    using demo_lookups(5)
    by (simp add: create_payment_def demo_payment_request_def
        PaymentCreateSerializer_create_def tax_rate_literal_def)
qed

section \<open>The daily sales report\<close>



section \<open>Rejected orders\<close>






section \<open>Reservations\<close>

lemma char_field_error: "char_field b m s = Inl e \<Longrightarrow> e = ValidationError"
  by (auto simp add: char_field_def Let_def split: if_splits)

lemma optional_field_error:
  assumes "\<And>x e. f x = Inl e \<Longrightarrow> e = ValidationError"
  shows "optional_field f v = Inl e \<Longrightarrow> e = ValidationError"
  using assms by (auto simp add: optional_field_def split: option.splits sum.splits)

lemma optional_field_Inr:
  "optional_field f v = Inr y \<Longrightarrow>
     (v = None \<and> y = None) \<or> (\<exists>x z. v = Some x \<and> f x = Inr z \<and> y = Some z)"
  by (auto simp add: optional_field_def split: option.splits sum.splits)

lemma to_internal_value_error:
  assumes "ReservationSerializer_to_internal_value st partial req = Inl e"
  shows "e = ValidationError"
proof -
  have c: "\<And>b m v e. optional_field (char_field b m) v = Inl e \<Longrightarrow> e = ValidationError"
    using optional_field_error [of "char_field _ _"] char_field_error by blast
  have t: "\<And>v e. optional_field
               (\<lambda>k. case get_table st k of None \<Rightarrow> Inl ValidationError | Some t \<Rightarrow> Inr t) v = Inl e
             \<Longrightarrow> e = ValidationError"
    by (auto simp add: optional_field_def split: option.splits sum.splits)
  have p: "\<And>v e. optional_field (\<lambda>p::int. if p < 1 then Inl ValidationError else Inr p) v = Inl e
             \<Longrightarrow> e = ValidationError"
    by (auto simp add: optional_field_def split: option.splits sum.splits if_splits)
  show ?thesis
    using assms c t p
    by (simp add: ReservationSerializer_to_internal_value_def split: if_splits sum.splits)
qed

lemma to_internal_value_fields:
  assumes "ReservationSerializer_to_internal_value st partial req = Inr data"
  shows "rd_table data = (case rr_table req of None \<Rightarrow> None | Some k \<Rightarrow> get_table st k)"
    and "rd_date data = rr_date req" and "rd_time data = rr_time req"
    and "rd_party_size data = rr_party_size req"
    and "rr_party_size req = Some p \<Longrightarrow> 1 \<le> p"
    and "rd_status data = rr_status req"
    and "\<not> partial \<Longrightarrow> rd_customer_name data \<noteq> None \<and> rd_customer_phone data \<noteq> None
           \<and> rd_table data \<noteq> None \<and> rd_date data \<noteq> None \<and> rd_time data \<noteq> None
           \<and> rd_party_size data \<noteq> None"
  using assms
  by (auto simp add: ReservationSerializer_to_internal_value_def optional_field_def
      split: if_splits sum.splits option.splits) metis+

lemma to_internal_value_tables:
  assumes "tables st' = tables st"
  shows "ReservationSerializer_to_internal_value st' partial req
       = ReservationSerializer_to_internal_value st partial req"
proof -
  have g: "get_table st' = get_table st"
    using assms by (intro ext) (simp add: get_table_def)
  show ?thesis by (simp only: ReservationSerializer_to_internal_value_def g)
qed

lemma validate_capacity:
  assumes "ReservationSerializer_to_internal_value st partial req = Inr data"
    and "rr_party_size req = Some p" and "rr_table req = Some k"
    and "get_table st k = Some t" and "p > capacity t"
  shows "ReservationSerializer_validate st inst data = Inl ValidationError"
proof -
  have "rd_party_size data = Some p" "rd_table data = Some t" "1 \<le> p"
    using to_internal_value_fields(1,4,5) [OF assms(1)] assms(2,3,4) by simp_all
  then show ?thesis
    using assms(5) by (simp add: ReservationSerializer_validate_def capacity_exceeded_def)
qed

lemma update_without_table:
  assumes "get_reservation st pk = Some inst"
    and "ReservationSerializer_to_internal_value st True req = Inr data"
    and "rr_table req = None"
  shows "update_reservation st pk True req =
           (Inr (apply_reservation_data inst data),
            save_reservation st (apply_reservation_data inst data))"
proof -
  have "rd_table data = None" using to_internal_value_fields(1) [OF assms(2)] assms(3) by simp
  then have "ReservationSerializer_validate st (Some inst) data = Inr data"
    by (simp add: ReservationSerializer_validate_def capacity_exceeded_def split: option.splits)
  then show ?thesis using assms(1,2) by (simp add: update_reservation_def Let_def)
qed

lemma demo_res_lookup:
  "get_reservation demo_db 1 = Some demo_reservation1"
  "get_reservation demo_db 2 = Some demo_reservation2"
  by (simp_all add: get_reservation_def get_by_def demo_db_def demo_reservation1_def
      demo_reservation2_def)

lemma patch_party_size_valid:
  "rr_table patch_party_size = None"
  "rr_party_size patch_party_size = Some 5"
  "ReservationSerializer_to_internal_value demo_db True patch_party_size
      = Inr \<lparr>rd_customer_name = None, rd_customer_phone = None, rd_table = None,
             rd_date = None, rd_time = None, rd_party_size = Some 5, rd_status = None,
             rd_special_requests = None\<rparr>"
  by (simp_all add: ReservationSerializer_to_internal_value_def optional_field_def
      patch_party_size_def empty_reservation_request_def)

lemma patch_party_size_result:
  "update_reservation demo_db 1 True patch_party_size =
     (Inr (demo_reservation1\<lparr>r_party_size := 5\<rparr>),
      save_reservation demo_db (demo_reservation1\<lparr>r_party_size := 5\<rparr>))"
proof -
  have a: "apply_reservation_data demo_reservation1
             \<lparr>rd_customer_name = None, rd_customer_phone = None, rd_table = None,
              rd_date = None, rd_time = None, rd_party_size = Some 5, rd_status = None,
              rd_special_requests = None\<rparr> = demo_reservation1\<lparr>r_party_size := 5\<rparr>"
    by (simp add: apply_reservation_data_def or_default_def)
  show ?thesis
    using update_without_table [OF demo_res_lookup(1) patch_party_size_valid(3,1)]
    by (simp only: a)
qed

text \<open>
  C8 (amended). A reservation request that carries both a party size and a table, the
  party size above that table's capacity, is answered with ValidationError and changes
  nothing, on create and on update (full or partial) of a stored reservation, whatever the
  table's availability flag. A partial update that names no table is not compared with any
  capacity: when its fields are valid it is accepted and the party size it carries is
  stored.
\<close>

theorem party_size_over_capacity_rejected:
  assumes "rr_party_size req = Some p" and "rr_table req = Some k"
    and "get_table st k = Some t" and "p > capacity t"
  shows "create_reservation st req = (Inl ValidationError, st)
     \<and> (get_reservation st pk = Some inst \<longrightarrow>
          update_reservation st pk partial req = (Inl ValidationError, st))
     \<and> (get_reservation st pk = Some inst \<and> rr_table req' = None
          \<and> ReservationSerializer_to_internal_value st True req' = Inr data' \<longrightarrow>
          update_reservation st pk True req' =
            (Inr (apply_reservation_data inst data'),
             save_reservation st (apply_reservation_data inst data'))
          \<and> r_party_size (apply_reservation_data inst data')
              = or_default (rr_party_size req') (r_party_size inst))"
proof (intro conjI impI)
  show "create_reservation st req = (Inl ValidationError, st)"
  proof (cases "ReservationSerializer_to_internal_value st False req")
    case (Inl e)
    then show ?thesis using to_internal_value_error [OF Inl] by (simp add: create_reservation_def)
  next
    case (Inr data)
    then show ?thesis using validate_capacity [OF Inr assms, of None]
      by (simp add: create_reservation_def)
  qed
next
  assume g: "get_reservation st pk = Some inst"
  show "update_reservation st pk partial req = (Inl ValidationError, st)"
  proof (cases "ReservationSerializer_to_internal_value st partial req")
    case (Inl e)
    then show ?thesis using g to_internal_value_error [OF Inl] by (simp add: update_reservation_def)
  next
    case (Inr data)
    then show ?thesis using g validate_capacity [OF Inr assms, of "Some inst"]
      by (simp add: update_reservation_def)
  qed
next
  assume a: "get_reservation st pk = Some inst \<and> rr_table req' = None
          \<and> ReservationSerializer_to_internal_value st True req' = Inr data'"
  then show "update_reservation st pk True req' =
            (Inr (apply_reservation_data inst data'),
             save_reservation st (apply_reservation_data inst data'))"
    using update_without_table by blast
next
  assume a: "get_reservation st pk = Some inst \<and> rr_table req' = None
          \<and> ReservationSerializer_to_internal_value st True req' = Inr data'"
  then have "rd_party_size data' = rr_party_size req'"
    using to_internal_value_fields(4) by blast
  then show "r_party_size (apply_reservation_data inst data')
              = or_default (rr_party_size req') (r_party_size inst)"
    by (simp add: apply_reservation_data_def)
qed


theorem party_size_over_capacity_rejected_witness:
  "create_reservation demo_db (demo_reservation_request 5) = (Inl ValidationError, demo_db)
   \<and> update_reservation demo_db 1 False (demo_reservation_request 5) = (Inl ValidationError, demo_db)
   \<and> update_reservation demo_db 1 True (demo_reservation_request 5) = (Inl ValidationError, demo_db)
   \<and> fst (update_reservation demo_db 1 True patch_party_size)
        = Inr (apply_reservation_data demo_reservation1
                 \<lparr>rd_customer_name = None, rd_customer_phone = None, rd_table = None,
                  rd_date = None, rd_time = None, rd_party_size = Some 5, rd_status = None,
                  rd_special_requests = None\<rparr>)
   \<and> r_party_size (apply_reservation_data demo_reservation1
                 \<lparr>rd_customer_name = None, rd_customer_phone = None, rd_table = None,
                  rd_date = None, rd_time = None, rd_party_size = Some 5, rd_status = None,
                  rd_special_requests = None\<rparr>) = 5"
proof -
  let ?t = "\<lparr>t_id = 1, table_number = 1, capacity = 4, is_available = True\<rparr>"
  have d: "rr_party_size (demo_reservation_request 5) = Some 5"
    "rr_table (demo_reservation_request 5) = Some 1"
    by (simp_all add: demo_reservation_request_def)
  have c: "5 > capacity ?t" by simp
  show ?thesis
    using party_size_over_capacity_rejected [OF d demo_lookups(6) c,
        where pk = 1 and inst = demo_reservation1 and partial = False
          and req' = patch_party_size]
      party_size_over_capacity_rejected [OF d demo_lookups(6) c,
        where pk = 1 and inst = demo_reservation1 and partial = True
          and req' = patch_party_size]
      demo_res_lookup(1) patch_party_size_valid
    by (simp add: or_default_def)
qed

text \<open>
  The claim as worded fails: the partial update \<open>{party_size: 5}\<close> of reservation 1,
  whose table has capacity 4, is accepted and 5 is stored.
\<close>

theorem party_size_patch_accepted:
  "\<exists>r' st'. update_reservation demo_db 1 True patch_party_size = (Inr r', st')
      \<and> rr_party_size patch_party_size = Some 5
      \<and> get_reservation st' 1 = Some r'
      \<and> r_party_size r' = 5 \<and> r_table r' = 1
      \<and> map_option capacity (get_table st' 1) = Some 4"
proof -
  let ?r = "demo_reservation1\<lparr>r_party_size := 5\<rparr>"
  have p: "rr_party_size patch_party_size = Some 5"
    by (simp add: patch_party_size_def empty_reservation_request_def)
  have k: "r_id demo_reservation1 = 1" "r_table demo_reservation1 = 1"
    by (simp_all add: demo_reservation1_def)
  have g: "get_reservation (save_reservation demo_db ?r) 1 = Some ?r"
    using demo_res_lookup(1) k
    by (simp add: save_reservation_def get_reservation_def get_by_update_row)
  have t: "map_option capacity (get_table (save_reservation demo_db ?r) 1) = Some 4"
    using demo_lookups(6) by (simp add: save_reservation_def get_table_def)
  show ?thesis
    using patch_party_size_result p g t k by simp
qed


lemma existing_nonempty:
  assumes "r \<in> set (reservations st)" and "r_status r = R_BOOKED"
    and "r_table r = t_id t" and "r_date r = d" and "r_time r = tm"
  shows "existing_reservations st None t d tm \<noteq> []"
    and "r_id i \<noteq> r_id r \<Longrightarrow> existing_reservations st (Some i) t d tm \<noteq> []"
  using assms by (auto simp add: existing_reservations_def filter_empty_conv)

lemma validate_conflict:
  assumes "rd_table data = Some t" and "rd_date data = Some d" and "rd_time data = Some tm"
    and "existing_reservations st inst t d tm \<noteq> []"
  shows "ReservationSerializer_validate st inst data = Inl ValidationError"
  using assms by (simp add: ReservationSerializer_validate_def)

lemma validate_passes:
  assumes "rd_table data = Some t" and "rd_date data = Some d" and "rd_time data = Some tm"
    and "existing_reservations st inst t d tm = []" and "\<not> capacity_exceeded data"
  shows "ReservationSerializer_validate st inst data = Inr data"
  using assms by (simp add: ReservationSerializer_validate_def)

lemma validate_skips:
  assumes "rd_table data = None \<or> rd_date data = None \<or> rd_time data = None"
    and "\<not> capacity_exceeded data"
  shows "ReservationSerializer_validate st inst data = Inr data"
  using assms by (auto simp add: ReservationSerializer_validate_def split: option.splits)

lemma create_reservation_succeeds:
  assumes "ReservationSerializer_to_internal_value st False req = Inr data"
    and "ReservationSerializer_validate st None data = Inr data"
  shows "\<exists>r2 st2. create_reservation st req = (Inr r2, st2)
           \<and> r_status r2 = or_default (rr_status req) R_BOOKED
           \<and> reservations st2 = reservations st @ [r2]"
proof -
  have f: "rd_customer_name data \<noteq> None \<and> rd_customer_phone data \<noteq> None
           \<and> rd_table data \<noteq> None \<and> rd_date data \<noteq> None \<and> rd_time data \<noteq> None
           \<and> rd_party_size data \<noteq> None"
    using to_internal_value_fields(7) [OF assms(1)] by simp
  have s: "rd_status data = rr_status req" using to_internal_value_fields(6) [OF assms(1)] .
  show ?thesis
    using assms f s
    by (auto simp add: create_reservation_def objects_create_reservation_def Let_def)
qed

lemma cancel_store:
  assumes "get_reservation st pk = Some r"
  shows "reservations (snd (cancel st pk)) =
           map (\<lambda>x. if r_id x = pk then r\<lparr>r_status := R_CANCELLED\<rparr> else x) (reservations st)"
    and "tables (snd (cancel st pk)) = tables st"
proof -
  have "r_id r = pk" using assms by (simp add: get_reservation_def get_by_key)
  then show "reservations (snd (cancel st pk)) =
           map (\<lambda>x. if r_id x = pk then r\<lparr>r_status := R_CANCELLED\<rparr> else x) (reservations st)"
    using assms by (simp add: cancel_def Let_def save_reservation_def update_row_def)
  show "tables (snd (cancel st pk)) = tables st"
    using assms by (simp add: cancel_def Let_def save_reservation_def)
qed

lemma demo_request_valid:
  "ReservationSerializer_to_internal_value demo_db False (demo_reservation_request 4)
     = Inr \<lparr>rd_customer_name = Some ''Second Customer'',
            rd_customer_phone = Some ''+2222222222'',
            rd_table = Some \<lparr>t_id = 1, table_number = 1, capacity = 4, is_available = True\<rparr>,
            rd_date = Some 200, rd_time = Some 64800, rd_party_size = Some 4,
            rd_status = None, rd_special_requests = None\<rparr>"
  using demo_lookups(6)
  by (simp add: ReservationSerializer_to_internal_value_def optional_field_def
      demo_reservation_request_def char_field_def py_strip_def py_isspace_def Let_def)

lemma patch_date_time_valid:
  "rr_table patch_date_time = None"
  "ReservationSerializer_to_internal_value demo_db True patch_date_time
      = Inr \<lparr>rd_customer_name = None, rd_customer_phone = None, rd_table = None,
             rd_date = Some 200, rd_time = Some 64800, rd_party_size = None, rd_status = None,
             rd_special_requests = None\<rparr>"
  by (simp_all add: ReservationSerializer_to_internal_value_def optional_field_def
      patch_date_time_def empty_reservation_request_def)

lemma patch_date_time_applied:
  "apply_reservation_data demo_reservation2
     \<lparr>rd_customer_name = None, rd_customer_phone = None, rd_table = None,
      rd_date = Some 200, rd_time = Some 64800, rd_party_size = None, rd_status = None,
      rd_special_requests = None\<rparr> = demo_reservation2\<lparr>r_date := 200, r_time := 64800\<rparr>"
  by (simp add: apply_reservation_data_def or_default_def demo_reservation2_def)


text \<open>
  C4 (amended). Let a reservation \<open>r\<close> with status BOOKED be stored for the table, date
  and time of a request. Creating a reservation from the request fails with
  ValidationError, and so does updating any other stored reservation with it. When \<open>r\<close>
  is the only booked reservation of that slot and the request passes the field checks with
  a party size within the capacity, updating \<open>r\<close> itself with the request is not
  refused, and after \<open>cancel\<close> of \<open>r\<close> creating the reservation succeeds, with the
  status of the request (BOOKED when it names none). A partial update that leaves out the
  table, the date or the time is not checked against the stored reservations.
\<close>

theorem reservation_double_booking:
  assumes "r \<in> set (reservations st)" and "r_status r = R_BOOKED"
    and "rr_table req = Some k" and "get_table st k = Some t"
    and "rr_date req = Some d" and "rr_time req = Some tm"
    and "r_table r = k" and "r_date r = d" and "r_time r = tm"
  shows "create_reservation st req = (Inl ValidationError, st)
     \<and> (get_reservation st pk = Some inst \<and> r_id inst \<noteq> r_id r \<longrightarrow>
          update_reservation st pk partial req = (Inl ValidationError, st))
     \<and> (get_reservation st (r_id r) = Some r
          \<and> (\<forall>r' \<in> set (reservations st).
                r_table r' = k \<and> r_date r' = d \<and> r_time r' = tm \<and> r_status r' = R_BOOKED
                \<longrightarrow> r_id r' = r_id r)
          \<and> ReservationSerializer_to_internal_value st False req = Inr data
          \<and> \<not> capacity_exceeded data \<longrightarrow>
          (\<exists>r1 st1. update_reservation st (r_id r) False req = (Inr r1, st1))
          \<and> (\<exists>r2 st2. create_reservation (snd (cancel st (r_id r))) req = (Inr r2, st2)
                \<and> r_status r2 = or_default (rr_status req) R_BOOKED
                \<and> r2 \<in> set (reservations st2)))
     \<and> (get_reservation st pk = Some inst
          \<and> (rr_table req' = None \<or> rr_date req' = None \<or> rr_time req' = None)
          \<and> ReservationSerializer_to_internal_value st True req' = Inr data'
          \<and> \<not> capacity_exceeded data' \<longrightarrow>
          update_reservation st pk True req' =
            (Inr (apply_reservation_data inst data'),
             save_reservation st (apply_reservation_data inst data')))"
proof (intro conjI impI)
  have kt: "t_id t = k" using assms(4) by (simp add: get_table_def get_by_key)
  have e: "existing_reservations st None t d tm \<noteq> []"
    using existing_nonempty(1) [OF assms(1,2)] assms(7,8,9) kt by simp
  show "create_reservation st req = (Inl ValidationError, st)"
  proof (cases "ReservationSerializer_to_internal_value st False req")
    case (Inl e')
    then show ?thesis using to_internal_value_error [OF Inl] by (simp add: create_reservation_def)
  next
    case (Inr dt)
    have "rd_table dt = Some t" "rd_date dt = Some d" "rd_time dt = Some tm"
      using to_internal_value_fields(1,2,3) [OF Inr] assms(3,4,5,6) by simp_all
    then show ?thesis using Inr validate_conflict [OF _ _ _ e]
      by (simp add: create_reservation_def)
  qed
next
  assume a: "get_reservation st pk = Some inst \<and> r_id inst \<noteq> r_id r"
  have kt: "t_id t = k" using assms(4) by (simp add: get_table_def get_by_key)
  have e: "existing_reservations st (Some inst) t d tm \<noteq> []"
    using a existing_nonempty(2) [OF assms(1,2)] assms(7,8,9) kt by simp
  show "update_reservation st pk partial req = (Inl ValidationError, st)"
  proof (cases "ReservationSerializer_to_internal_value st partial req")
    case (Inl e')
    then show ?thesis using a to_internal_value_error [OF Inl]
      by (simp add: update_reservation_def)
  next
    case (Inr dt)
    have "rd_table dt = Some t" "rd_date dt = Some d" "rd_time dt = Some tm"
      using to_internal_value_fields(1,2,3) [OF Inr] assms(3,4,5,6) by simp_all
    then show ?thesis using a Inr validate_conflict [OF _ _ _ e]
      by (simp add: update_reservation_def)
  qed
next
  assume a: "get_reservation st (r_id r) = Some r
          \<and> (\<forall>r' \<in> set (reservations st).
                r_table r' = k \<and> r_date r' = d \<and> r_time r' = tm \<and> r_status r' = R_BOOKED
                \<longrightarrow> r_id r' = r_id r)
          \<and> ReservationSerializer_to_internal_value st False req = Inr data
          \<and> \<not> capacity_exceeded data"
  have kt: "t_id t = k" using assms(4) by (simp add: get_table_def get_by_key)
  have dt: "rd_table data = Some t" "rd_date data = Some d" "rd_time data = Some tm"
    using a to_internal_value_fields(1,2,3) [of st False req data] assms(3,4,5,6) by simp_all
  have e: "existing_reservations st (Some r) t d tm = []"
    using a kt by (auto simp add: existing_reservations_def filter_empty_conv)
  show "\<exists>r1 st1. update_reservation st (r_id r) False req = (Inr r1, st1)"
    using a validate_passes [OF dt e]
    by (simp add: update_reservation_def Let_def)
next
  assume a: "get_reservation st (r_id r) = Some r
          \<and> (\<forall>r' \<in> set (reservations st).
                r_table r' = k \<and> r_date r' = d \<and> r_time r' = tm \<and> r_status r' = R_BOOKED
                \<longrightarrow> r_id r' = r_id r)
          \<and> ReservationSerializer_to_internal_value st False req = Inr data
          \<and> \<not> capacity_exceeded data"
  let ?st = "snd (cancel st (r_id r))"
  have kt: "t_id t = k" using assms(4) by (simp add: get_table_def get_by_key)
  have dt: "rd_table data = Some t" "rd_date data = Some d" "rd_time data = Some tm"
    using a to_internal_value_fields(1,2,3) [of st False req data] assms(3,4,5,6) by simp_all
  have rs: "reservations ?st =
           map (\<lambda>x. if r_id x = r_id r then r\<lparr>r_status := R_CANCELLED\<rparr> else x) (reservations st)"
    and ts: "tables ?st = tables st"
    using a cancel_store by simp_all
  have v0: "ReservationSerializer_to_internal_value ?st False req = Inr data"
    using a to_internal_value_tables [OF ts] by simp
  have e: "existing_reservations ?st None t d tm = []"
    using a kt by (auto simp add: existing_reservations_def filter_empty_conv rs)
  have v: "ReservationSerializer_validate ?st None data = Inr data"
    using a validate_passes [OF dt e] by simp
  show "\<exists>r2 st2. create_reservation ?st req = (Inr r2, st2)
                \<and> r_status r2 = or_default (rr_status req) R_BOOKED
                \<and> r2 \<in> set (reservations st2)"
    using create_reservation_succeeds [OF v0 v] by auto
next
  assume a: "get_reservation st pk = Some inst
          \<and> (rr_table req' = None \<or> rr_date req' = None \<or> rr_time req' = None)
          \<and> ReservationSerializer_to_internal_value st True req' = Inr data'
          \<and> \<not> capacity_exceeded data'"
  then have "rd_table data' = None \<or> rd_date data' = None \<or> rd_time data' = None"
    using to_internal_value_fields(1,2,3) [of st True req' data'] by auto
  then have "ReservationSerializer_validate st (Some inst) data' = Inr data'"
    using a validate_skips by blast
  then show "update_reservation st pk True req' =
            (Inr (apply_reservation_data inst data'),
             save_reservation st (apply_reservation_data inst data'))"
    using a by (simp add: update_reservation_def Let_def)
qed


theorem reservation_double_booking_witness:
  "create_reservation demo_db (demo_reservation_request 4) = (Inl ValidationError, demo_db)
   \<and> update_reservation demo_db 2 False (demo_reservation_request 4) = (Inl ValidationError, demo_db)
   \<and> (\<exists>r1 st1. update_reservation demo_db 1 False (demo_reservation_request 4) = (Inr r1, st1))
   \<and> (\<exists>r2 st2. create_reservation (snd (cancel demo_db 1)) (demo_reservation_request 4)
                    = (Inr r2, st2)
         \<and> r_status r2 = R_BOOKED \<and> r2 \<in> set (reservations st2))
   \<and> fst (update_reservation demo_db 2 True patch_date_time)
        = Inr (demo_reservation2\<lparr>r_date := 200, r_time := 64800\<rparr>)"
proof -
  let ?t = "\<lparr>t_id = 1, table_number = 1, capacity = 4, is_available = True\<rparr>"
  let ?data = "\<lparr>rd_customer_name = Some ''Second Customer'',
            rd_customer_phone = Some ''+2222222222'', rd_table = Some ?t,
            rd_date = Some 200, rd_time = Some 64800, rd_party_size = Some 4,
            rd_status = None, rd_special_requests = None\<rparr>"
  let ?patch = "\<lparr>rd_customer_name = None, rd_customer_phone = None, rd_table = None,
             rd_date = Some 200, rd_time = Some 64800, rd_party_size = None, rd_status = None,
             rd_special_requests = None\<rparr>"
  have r: "demo_reservation1 \<in> set (reservations demo_db)" "r_status demo_reservation1 = R_BOOKED"
    "r_table demo_reservation1 = 1" "r_date demo_reservation1 = 200"
    "r_time demo_reservation1 = 64800" "r_id demo_reservation1 = 1"
    by (simp_all add: demo_db_def demo_reservation1_def)
  have d: "rr_table (demo_reservation_request 4) = Some 1"
    "rr_date (demo_reservation_request 4) = Some 200"
    "rr_time (demo_reservation_request 4) = Some 64800"
    "rr_status (demo_reservation_request 4) = None"
    by (simp_all add: demo_reservation_request_def)
  have g: "get_reservation demo_db 2 = Some demo_reservation2
             \<and> r_id demo_reservation2 \<noteq> r_id demo_reservation1"
    "get_reservation demo_db (r_id demo_reservation1) = Some demo_reservation1"
    using demo_res_lookup by (simp_all add: demo_reservation1_def demo_reservation2_def)
  have u: "\<forall>r' \<in> set (reservations demo_db).
                r_table r' = 1 \<and> r_date r' = 200 \<and> r_time r' = 64800 \<and> r_status r' = R_BOOKED
                \<longrightarrow> r_id r' = r_id demo_reservation1"
    by (simp add: demo_db_def demo_reservation1_def demo_reservation2_def)
  have c: "\<not> capacity_exceeded ?data" "\<not> capacity_exceeded ?patch"
    by (simp_all add: capacity_exceeded_def)
  note th = reservation_double_booking [OF r(1,2) d(1) demo_lookups(6) d(2,3) r(3,4,5),
      where pk = 2 and inst = demo_reservation2 and partial = False and data = ?data
        and req' = patch_date_time and data' = ?patch]
  show ?thesis
    using th g u c demo_request_valid patch_date_time_valid patch_date_time_applied
    by (simp add: r(6) d(4) or_default_def)
qed

text \<open>
  The claim as worded fails: the partial update \<open>{date, time}\<close> of reservation 2 to the
  slot of reservation 1 is accepted, and two BOOKED reservations share the table, date and
  time.
\<close>

theorem partial_update_double_books:
  "\<exists>r' st'. update_reservation demo_db 2 True patch_date_time = (Inr r', st')
      \<and> reservations st' = [demo_reservation1, r']
      \<and> map (\<lambda>x. (r_id x, r_table x, r_date x, r_time x, r_status x)) (reservations st')
           = [(1, 1, 200, 64800, R_BOOKED), (2, 1, 200, 64800, R_BOOKED)]"
proof -
  let ?r = "demo_reservation2\<lparr>r_date := 200, r_time := 64800\<rparr>"
  have v: "ReservationSerializer_validate demo_db (Some demo_reservation2)
             \<lparr>rd_customer_name = None, rd_customer_phone = None, rd_table = None,
              rd_date = Some 200, rd_time = Some 64800, rd_party_size = None, rd_status = None,
              rd_special_requests = None\<rparr>
           = Inr \<lparr>rd_customer_name = None, rd_customer_phone = None, rd_table = None,
              rd_date = Some 200, rd_time = Some 64800, rd_party_size = None, rd_status = None,
              rd_special_requests = None\<rparr>"
    by (simp add: ReservationSerializer_validate_def capacity_exceeded_def)
  have u: "update_reservation demo_db 2 True patch_date_time
             = (Inr ?r, save_reservation demo_db ?r)"
    using demo_res_lookup(2) patch_date_time_valid(2) v patch_date_time_applied
    by (simp add: update_reservation_def Let_def)
  have s: "reservations (save_reservation demo_db ?r) = [demo_reservation1, ?r]"
    by (simp add: save_reservation_def update_row_def demo_db_def demo_reservation1_def
        demo_reservation2_def)
  have m: "map (\<lambda>x. (r_id x, r_table x, r_date x, r_time x, r_status x)) [demo_reservation1, ?r]
           = [(1, 1, 200, 64800, R_BOOKED), (2, 1, 200, 64800, R_BOOKED)]"
    by (simp add: demo_reservation1_def demo_reservation2_def)
  show ?thesis using u s m by simp
qed

section \<open>Order totals\<close>

text \<open>
  Every request keeps the invariant of the order totals as long as the quantities of a
  create-order request are Python ints. \<open>calculate_total\<close> re-establishes the invariant
  for the order it is called on from the stored rows, whatever the request's quantity
  was; the other orders keep it because the item that was added or removed is not theirs.
  For \<open>create\<close> the loop is traced with an accumulator; with int quantities it cannot
  fail after \<open>validate_items\<close> has accepted the list, and the sum it stores is the sum
  over the rows it wrote.
\<close>

lemma items_total_append: "items_total (xs @ ys) = items_total xs + items_total ys"
  by (simp add: items_total_def)

lemma decimal_mul_column:
  "decimal_mul d q = Inr x \<Longrightarrow> integer_column_value q = Inr n \<Longrightarrow> x = d * of_int n"
  by (cases q) auto

lemma decimal_mul_is_int: "is_int q \<Longrightarrow> \<exists>x. decimal_mul d q = Inr x"
  by (cases q) auto

lemma integer_column_is_int: "is_int q \<Longrightarrow> \<exists>n. integer_column_value q = Inr n"
  by (cases q) auto

lemma create_item_cases:
  assumes "objects_create_order_item st k m q pr instr = (res, st1)"
  shows "(\<exists>e. res = Inl e \<and> st1 = st \<and> integer_column_value q = Inl e)
       \<or> (\<exists>it. res = Inr it \<and> order_items st1 = order_items st @ [it] \<and> oi_order it = k
             \<and> oi_id it = next_order_item_id st \<and> orders st1 = orders st
             \<and> next_order_id st1 = next_order_id st
             \<and> next_order_item_id st1 = Suc (next_order_item_id st)
             \<and> menu_items st1 = menu_items st
             \<and> integer_column_value q = Inr (quantity it)
             \<and> oi_price it = (if pr = 0 then mi_price m else pr))"
  using assms
  by (auto simp add: objects_create_order_item_def Let_def split: sum.splits)


lemma calculate_total_totals:
  assumes "\<forall>x \<in> set (orders st). o_id x \<noteq> o_id ord \<longrightarrow>
             total_price x = items_total (order_items_of st (o_id x))"
  shows "totals_consistent (snd (calculate_total st ord))"
  using assms
  by (auto simp add: totals_consistent_def calculate_total_def Let_def save_order_def
      update_row_def order_items_of_def)

lemma calculate_total_keys:
  assumes "keys_consistent st"
  shows "keys_consistent (snd (calculate_total st ord))"
  using assms
  by (auto simp add: keys_consistent_def calculate_total_def Let_def save_order_def
      update_row_def)

lemma find_Some_set: "find P xs = Some x \<Longrightarrow> x \<in> set xs \<and> P x"
  by (induction xs) (auto split: if_splits)


lemma add_item_invariant:
  assumes k: "keys_consistent st" and t: "totals_consistent st"
  shows "keys_consistent (snd (add_item st pk req)) \<and> totals_consistent (snd (add_item st pk req))"
proof (cases "get_order st pk")
  case None
  then show ?thesis using k t by (simp add: add_item_def)
next
  case (Some ord)
  note go = Some
  then have ord: "ord \<in> set (orders st)" "o_id ord = pk"
    using get_by_Some_key [of o_id "orders st" pk ord] by (simp_all add: get_order_def)
  show ?thesis
  proof (cases "o_status ord = O_SERVED \<or> o_status ord = O_CANCELLED")
    case True
    then show ?thesis using go k t by (simp add: add_item_def)
  next
    case False
    show ?thesis
    proof (cases "ai_menu_item_id req")
      case None
      then show ?thesis using go False k t by (simp add: add_item_def)
    next
      case (Some mid)
      note mid = Some
      show ?thesis
      proof (cases "find (\<lambda>m. mi_id m = mid \<and> mi_available m) (menu_items st)")
        case None
        then show ?thesis using go False mid k t by (simp add: add_item_def)
      next
        case (Some menu_item)
        obtain res st1 where c: "objects_create_order_item st (o_id ord) menu_item
             (or_default (ai_quantity req) (PyInt 1)) (mi_price menu_item)
             (or_default (ai_special_instructions req) []) = (res, st1)"
          by (cases "objects_create_order_item st (o_id ord) menu_item
             (or_default (ai_quantity req) (PyInt 1)) (mi_price menu_item)
             (or_default (ai_special_instructions req) [])")
        from create_item_cases [OF c] show ?thesis
        proof (elim disjE exE conjE)
          fix e assume "res = Inl e" "st1 = st"
          then have "snd (add_item st pk req) = st"
            using go False mid Some c by (simp add: add_item_def)
          then show ?thesis using k t by simp
        next
          fix order_item
          assume s1: "res = Inr order_item" "order_items st1 = order_items st @ [order_item]"
            "oi_order order_item = o_id ord" "oi_id order_item = next_order_item_id st"
            "orders st1 = orders st" "next_order_id st1 = next_order_id st"
            "next_order_item_id st1 = Suc (next_order_item_id st)"
          have r: "snd (add_item st pk req) = snd (calculate_total st1 ord)"
            using go False mid Some c s1(1)
            by (simp add: add_item_def split: prod.splits)
          have k1: "keys_consistent st1"
            using k ord s1 by (auto simp add: keys_consistent_def)
          have t1: "\<forall>x \<in> set (orders st1). o_id x \<noteq> o_id ord \<longrightarrow>
               total_price x = items_total (order_items_of st1 (o_id x))"
            using t s1 by (auto simp add: totals_consistent_def order_items_of_def)
          show ?thesis
            using calculate_total_keys [OF k1, of ord] calculate_total_totals [OF t1] r by simp
        qed
      qed
    qed
  qed
qed

lemma distinct_key_eq:
  "distinct (map f xs) \<Longrightarrow> x \<in> set xs \<Longrightarrow> y \<in> set xs \<Longrightarrow> f x = f y \<Longrightarrow> x = y"
  by (meson distinct_map inj_onD)

lemma remove_item_invariant:
  assumes k: "keys_consistent st" and t: "totals_consistent st"
  shows "keys_consistent (snd (remove_item st pk item_id))
     \<and> totals_consistent (snd (remove_item st pk item_id))"
proof (cases "get_order st pk")
  case None
  then show ?thesis using k t by (simp add: remove_item_def)
next
  case (Some ord)
  note go = Some
  show ?thesis
  proof (cases "o_status ord = O_SERVED \<or> o_status ord = O_CANCELLED")
    case True
    then show ?thesis using go k t by (simp add: remove_item_def)
  next
    case False
    show ?thesis
    proof (cases item_id)
      case None
      then show ?thesis using go False k t by (simp add: remove_item_def)
    next
      case (Some iid)
      note iid = Some
      show ?thesis
      proof (cases "find (\<lambda>i. oi_id i = iid \<and> oi_order i = o_id ord) (order_items st)")
        case None
        then show ?thesis using go False iid k t by (simp add: remove_item_def)
      next
        case (Some order_item)
        then have oi: "order_item \<in> set (order_items st)" "oi_order order_item = o_id ord"
          using find_Some_set [of _ "order_items st" order_item] by auto
        let ?st1 = "st\<lparr>order_items := filter (\<lambda>i. oi_id i \<noteq> oi_id order_item) (order_items st)\<rparr>"
        have r: "snd (remove_item st pk item_id) = snd (calculate_total ?st1 ord)"
          using go False iid Some by (simp add: remove_item_def Let_def split: prod.splits)
        have d: "distinct (map oi_id (order_items st))" using k by (simp add: keys_consistent_def)
        have k1: "keys_consistent ?st1"
          using k by (simp add: keys_consistent_def distinct_map_filter)
        have same: "order_items_of ?st1 j = order_items_of st j" if j: "j \<noteq> o_id ord" for j
        proof -
          have "(oi_id i \<noteq> oi_id order_item \<and> oi_order i = j) = (oi_order i = j)"
            if i: "i \<in> set (order_items st)" for i
          proof (cases "oi_id i = oi_id order_item")
            case True
            then have "i = order_item" using distinct_key_eq [OF d i oi(1)] by simp
            then show ?thesis using oi(2) j by simp
          next
            case False
            then show ?thesis by simp
          qed
          then have "filter (\<lambda>i. oi_id i \<noteq> oi_id order_item \<and> oi_order i = j) (order_items st)
                   = filter (\<lambda>i. oi_order i = j) (order_items st)"
            by (intro filter_cong) simp_all
          then show ?thesis by (simp add: order_items_of_def)
        qed
        have t1: "\<forall>x \<in> set (orders ?st1). o_id x \<noteq> o_id ord \<longrightarrow>
             total_price x = items_total (order_items_of ?st1 (o_id x))"
        proof (intro ballI impI)
          fix x assume x: "x \<in> set (orders ?st1)" "o_id x \<noteq> o_id ord"
          then have "total_price x = items_total (order_items_of st (o_id x))"
            using t by (simp add: totals_consistent_def)
          then show "total_price x = items_total (order_items_of ?st1 (o_id x))"
            using same [OF x(2)] by simp
        qed
        show ?thesis
          using calculate_total_keys [OF k1, of ord] calculate_total_totals [OF t1] r by simp
      qed
    qed
  qed
qed



lemma create_order_items_store:
  "create_order_items st ord its acc = (Inr tot, st') \<Longrightarrow>
     \<exists>new. order_items st' = order_items st @ new
        \<and> (\<forall>i \<in> set new. oi_order i = o_id ord)
        \<and> tot = acc + items_total new
        \<and> map oi_id new = [next_order_item_id st ..< next_order_item_id st + length new]
        \<and> next_order_item_id st' = next_order_item_id st + length new
        \<and> orders st' = orders st \<and> next_order_id st' = next_order_id st"
proof (induction its arbitrary: st acc)
  case Nil
  then show ?case by (simp add: items_total_def)
next
  case (Cons item rest)
  from Cons.prems obtain mid menu_item q where
    a: "it_menu_item_id item = Some mid" "get_menu_item st mid = Some menu_item"
       "it_quantity item = Some q"
    by (auto split: option.splits)
  obtain res st1 where c: "objects_create_order_item st (o_id ord) menu_item q
       (mi_price menu_item) (or_default (it_special_instructions item) []) = (res, st1)"
    by (cases "objects_create_order_item st (o_id ord) menu_item q
       (mi_price menu_item) (or_default (it_special_instructions item) [])")
  from Cons.prems a c obtain it where it: "res = Inr it"
    by (cases res) auto
  from Cons.prems a c it obtain subtotal where m: "decimal_mul (oi_price it) q = Inr subtotal"
    by (cases "decimal_mul (oi_price it) q") auto
  have rec: "create_order_items st1 ord rest (acc + subtotal) = (Inr tot, st')"
    using Cons.prems a c it m by simp
  from create_item_cases [OF c] it have
    s1: "order_items st1 = order_items st @ [it]" "oi_order it = o_id ord"
      "oi_id it = next_order_item_id st" "orders st1 = orders st"
      "next_order_id st1 = next_order_id st"
      "next_order_item_id st1 = Suc (next_order_item_id st)"
      "integer_column_value q = Inr (quantity it)"
    by auto
  have sub: "subtotal = oi_price it * of_int (quantity it)"
    using decimal_mul_column [OF m s1(7)] .
  from Cons.IH [OF rec] obtain new where
    n: "order_items st' = order_items st1 @ new" "\<forall>i \<in> set new. oi_order i = o_id ord"
       "tot = (acc + subtotal) + items_total new"
       "map oi_id new = [next_order_item_id st1 ..< next_order_item_id st1 + length new]"
       "next_order_item_id st' = next_order_item_id st1 + length new"
       "orders st' = orders st1" "next_order_id st' = next_order_id st1"
    by blast
  have "order_items st' = order_items st @ (it # new)" using n(1) s1(1) by simp
  moreover have "\<forall>i \<in> set (it # new). oi_order i = o_id ord" using n(2) s1(2) by simp
  moreover have "tot = acc + items_total (it # new)" using n(3) sub by (simp add: items_total_def)
  moreover have "map oi_id (it # new) =
      [next_order_item_id st ..< next_order_item_id st + length (it # new)]"
  proof -
    have "[next_order_item_id st ..< next_order_item_id st + Suc (length new)]
        = next_order_item_id st # [Suc (next_order_item_id st) ..< Suc (next_order_item_id st) + length new]"
      by (subst upt_rec) simp
    then show ?thesis using n(4) s1(3,6) by simp
  qed
  moreover have "next_order_item_id st' = next_order_item_id st + length (it # new)"
    using n(5) s1(6) by simp
  moreover have "orders st' = orders st \<and> next_order_id st' = next_order_id st"
    using n(6,7) s1(4,5) by simp
  ultimately show ?case by blast
qed

lemma create_order_items_no_error:
  "validate_each_item st0 its = Inr u \<Longrightarrow> menu_items st = menu_items st0 \<Longrightarrow>
   \<forall>item \<in> set its. \<forall>q. it_quantity item = Some q \<longrightarrow> is_int q \<Longrightarrow>
     \<exists>tot st'. create_order_items st ord its acc = (Inr tot, st')"
proof (induction its arbitrary: st acc)
  case Nil
  then show ?case by simp
next
  case (Cons item rest)
  from Cons.prems(1) obtain mid q menu_item where
    a: "it_menu_item_id item = Some mid" "it_quantity item = Some q"
       "get_menu_item st0 mid = Some menu_item" "validate_each_item st0 rest = Inr u"
    by (auto split: option.splits if_splits)
  have qi: "is_int q" using Cons.prems(3) a(2) by simp
  have g: "get_menu_item st mid = Some menu_item"
    using a(3) Cons.prems(2) by (simp add: get_menu_item_def)
  obtain res st1 where c: "objects_create_order_item st (o_id ord) menu_item q
       (mi_price menu_item) (or_default (it_special_instructions item) []) = (res, st1)"
    by (cases "objects_create_order_item st (o_id ord) menu_item q
       (mi_price menu_item) (or_default (it_special_instructions item) [])")
  from create_item_cases [OF c] integer_column_is_int [OF qi] obtain it where
    it: "res = Inr it" "menu_items st1 = menu_items st"
    by auto
  obtain subtotal where m: "decimal_mul (oi_price it) q = Inr subtotal"
    using decimal_mul_is_int [OF qi] by blast
  have m1: "menu_items st1 = menu_items st0" using it(2) Cons.prems(2) by simp
  have r: "\<forall>item \<in> set rest. \<forall>q. it_quantity item = Some q \<longrightarrow> is_int q"
    using Cons.prems(3) by simp
  from Cons.IH [OF a(4) m1 r] show ?case
    using a g c it(1) m by simp
qed


lemma create_order_invariant:
  assumes k: "keys_consistent st" and t: "totals_consistent st"
    and q: "\<forall>item \<in> set (orq_items req). \<forall>q. it_quantity item = Some q \<longrightarrow> is_int q"
  shows "keys_consistent (snd (create_order st now req))
     \<and> totals_consistent (snd (create_order st now req))"
proof (cases "get_table st (orq_table req)")
  case None
  then show ?thesis using k t by (simp add: create_order_def)
next
  case (Some tb)
  show ?thesis
  proof (cases "OrderCreateSerializer_validate_items st (orq_items req)")
    case (Inl e)
    then show ?thesis using Some k t by (simp add: create_order_def)
  next
    case (Inr v)
    then have v: "v = orq_items req"
      by (simp add: OrderCreateSerializer_validate_items_def split: if_splits sum.splits)
    from Inr obtain u where ve: "validate_each_item st (orq_items req) = Inr u"
      by (auto simp add: OrderCreateSerializer_validate_items_def split: if_splits sum.splits)
    define ord where "ord = \<lparr>o_id = next_order_id st, o_table = t_id tb,
            o_customer_name = or_default (orq_customer_name req) [],
            total_price = 0, o_status = O_PENDING, o_timestamp = now,
            o_notes = or_default (orq_notes req) []\<rparr>"
    define st1 where "st1 = st\<lparr>orders := orders st @ [ord], next_order_id := Suc (next_order_id st)\<rparr>"
    have oid: "o_id ord = next_order_id st" by (simp add: ord_def)
    have m1: "menu_items st1 = menu_items st" by (simp add: st1_def)
    obtain tot st2 where c: "create_order_items st1 ord (orq_items req) 0 = (Inr tot, st2)"
      using create_order_items_no_error [OF ve m1 q, of ord 0] by blast
    from create_order_items_store [OF c] obtain new where
      n: "order_items st2 = order_items st1 @ new" "\<forall>i \<in> set new. oi_order i = o_id ord"
         "tot = 0 + items_total new"
         "map oi_id new = [next_order_item_id st1 ..< next_order_item_id st1 + length new]"
         "next_order_item_id st2 = next_order_item_id st1 + length new"
         "orders st2 = orders st1" "next_order_id st2 = next_order_id st1"
      by blast
    define st4 where "st4 = save_table (save_order st2 (ord\<lparr>total_price := tot\<rparr>))
                              (tb\<lparr>is_available := False\<rparr>)"
    have r: "snd (create_order st now req) = st4"
      using Some Inr v c
      by (simp add: create_order_def OrderCreateSerializer_create_def objects_create_order_def
          Let_def ord_def [symmetric] st1_def [symmetric] st4_def)
    have lt: "\<forall>x \<in> set (orders st). o_id x < next_order_id st"
      using k by (simp add: keys_consistent_def)
    have ilt: "\<forall>i \<in> set (order_items st). oi_id i < next_order_item_id st
                 \<and> oi_order i < next_order_id st"
      using k by (simp add: keys_consistent_def)
    have keep: "map (\<lambda>x. if o_id x = next_order_id st then ord\<lparr>total_price := tot\<rparr> else x)
                  (orders st) = orders st"
      using lt by (intro map_idI) auto
    have os: "orders st4 = orders st @ [ord\<lparr>total_price := tot\<rparr>]"
      using keep
      by (simp add: st4_def save_table_def save_order_def update_row_def n(6) st1_def oid)
    have its: "order_items st4 = order_items st @ new"
      by (simp add: st4_def save_table_def save_order_def n(1) st1_def)
    have c4: "next_order_id st4 = Suc (next_order_id st)"
      "next_order_item_id st4 = next_order_item_id st + length new"
      by (simp_all add: st4_def save_table_def save_order_def n(5,7) st1_def)
    have ids: "map oi_id new = [next_order_item_id st ..< next_order_item_id st + length new]"
      using n(4) by (simp add: st1_def)
    have newid: "next_order_item_id st \<le> oi_id i \<and> oi_id i < next_order_item_id st + length new"
      if "i \<in> set new" for i
    proof -
      have "oi_id i \<in> set (map oi_id new)" using that by simp
      then show ?thesis unfolding ids by simp
    qed
    have neword: "\<forall>i \<in> set new. oi_order i = next_order_id st" using n(2) oid by simp
    have kk: "keys_consistent st4"
    proof -
      have "distinct (map oi_id (order_items st))" using k by (simp add: keys_consistent_def)
      moreover have "distinct (map oi_id new)" unfolding ids by simp
      moreover have "set (map oi_id (order_items st)) \<inter> set (map oi_id new) = {}"
        using ilt newid by fastforce
      ultimately have d: "distinct (map oi_id (order_items st4))" by (simp add: its)
      have b1: "\<forall>i \<in> set (order_items st4). oi_id i < next_order_item_id st4
                  \<and> oi_order i < next_order_id st4"
        using ilt newid neword by (auto simp add: its c4)
      have b2: "\<forall>x \<in> set (orders st4). o_id x < next_order_id st4"
        using lt oid by (auto simp add: os c4)
      show ?thesis using d b1 b2 by (simp add: keys_consistent_def)
    qed
    have tt: "totals_consistent st4"
      unfolding totals_consistent_def
    proof
      fix x assume "x \<in> set (orders st4)"
      then consider (old) "x \<in> set (orders st)" | (new) "x = ord\<lparr>total_price := tot\<rparr>"
        by (auto simp add: os)
      then show "total_price x = items_total (order_items_of st4 (o_id x))"
      proof cases
        case old
        then have ne: "o_id x \<noteq> next_order_id st" using lt by auto
        have "filter (\<lambda>i. oi_order i = o_id x) new = []"
          using neword ne by (simp add: filter_empty_conv)
        then have "order_items_of st4 (o_id x) = order_items_of st (o_id x)"
          by (simp add: order_items_of_def its)
        then show ?thesis using t old by (simp add: totals_consistent_def)
      next
        case new
        have "filter (\<lambda>i. oi_order i = next_order_id st) (order_items st) = []"
          using ilt by (auto simp add: filter_empty_conv)
        moreover have "filter (\<lambda>i. oi_order i = next_order_id st) new = new"
          using neword by (simp add: filter_id_conv)
        ultimately have "order_items_of st4 (next_order_id st) = new"
          by (simp add: order_items_of_def its)
        then show ?thesis using new n(3) oid by simp
      qed
    qed
    show ?thesis using kk tt r by simp
  qed
qed

lemma apply_op_invariant:
  assumes "keys_consistent st" and "totals_consistent st" and "integer_quantities op"
  shows "keys_consistent (apply_op st op) \<and> totals_consistent (apply_op st op)"
proof (cases op)
  case (CreateOrder now req)
  then have "\<forall>item \<in> set (orq_items req). \<forall>q. it_quantity item = Some q \<longrightarrow> is_int q"
    using assms(3) by (auto simp add: list_all_iff)
  then show ?thesis using CreateOrder create_order_invariant [OF assms(1,2)] by simp
next
  case (AddItem pk req)
  then show ?thesis using add_item_invariant [OF assms(1,2)] by simp
next
  case (RemoveItem pk item_id)
  then show ?thesis using remove_item_invariant [OF assms(1,2)] by simp
qed

lemma run_ops_invariant:
  "keys_consistent st \<Longrightarrow> totals_consistent st \<Longrightarrow> list_all integer_quantities ops \<Longrightarrow>
     keys_consistent (run_ops st ops) \<and> totals_consistent (run_ops st ops)"
proof (induction ops arbitrary: st)
  case Nil
  then show ?case by (simp add: run_ops_def)
next
  case (Cons op ops)
  from Cons.prems(3) have o: "integer_quantities op" "list_all integer_quantities ops" by simp_all
  from apply_op_invariant [OF Cons.prems(1,2) o(1)] Cons.IH [of "apply_op st op"] o(2)
  show ?case by (simp add: run_ops_def)
qed

lemma run_demo_ops:
  "totals_consistent (run_ops empty_db demo_ops)
   \<and> map total_price (orders (run_ops empty_db demo_ops)) = [2299 / 50]"
proof -
  have k0: "keys_consistent empty_db" and t0: "totals_consistent empty_db"
    by (simp_all add: keys_consistent_def totals_consistent_def empty_db_def)
  have q: "list_all integer_quantities demo_ops"
    by (simp add: demo_ops_def demo_order_request_def demo_item_def)
  have e1: "map total_price (orders (run_ops empty_db demo_ops)) = [2299 / 50]"
    by code_simp
  show ?thesis using run_ops_invariant [OF k0 t0 q] e1 by simp
qed

text \<open>
  C1. The create-order request with the single item \<open>{menu_item_id: 1, quantity: "2"}\<close>
  against the store without orders. \<open>validate_items\<close> accepts it (it never looks at the
  quantity), the order row is written with a total of 0, the item row is written with
  quantity 2 and price 12.99, and the product of the Decimal price and the string raises
  TypeError before the total is stored. The request fails and leaves order 1 with a
  stored total of 0 while the sum over its items is 25.98.
\<close>

theorem create_order_string_quantity:
  "\<exists>st'. create_order empty_db 100 (demo_order_request [demo_item 1 (PyStr ''2'')])
            = (Inl TypeError, st')
      \<and> map (\<lambda>ord. (o_id ord, total_price ord)) (orders st') = [(1, 0)]
      \<and> map (\<lambda>i. (oi_order i, oi_price i, quantity i)) (order_items st') = [(1, 1299 / 100, 2)]
      \<and> items_total (order_items_of st' 1) = 1299 / 50"
proof -
  obtain res st' where r: "create_order empty_db 100 (demo_order_request [demo_item 1 (PyStr ''2'')])
      = (res, st')"
    by (cases "create_order empty_db 100 (demo_order_request [demo_item 1 (PyStr ''2'')])")
  have a: "fst (create_order empty_db 100 (demo_order_request [demo_item 1 (PyStr ''2'')]))
             = Inl TypeError"
    by code_simp
  have b: "map (\<lambda>ord. (o_id ord, total_price ord))
             (orders (snd (create_order empty_db 100 (demo_order_request [demo_item 1 (PyStr ''2'')]))))
           = [(1, 0)]"
    by code_simp
  have c: "map (\<lambda>i. (oi_order i, oi_price i, quantity i))
             (order_items (snd (create_order empty_db 100 (demo_order_request [demo_item 1 (PyStr ''2'')]))))
           = [(1, 1299 / 100, 2)]"
    by code_simp
  have d: "items_total (order_items_of
             (snd (create_order empty_db 100 (demo_order_request [demo_item 1 (PyStr ''2'')]))) 1)
           = 1299 / 50"
    by code_simp
  show ?thesis using r a b c d by auto
qed

end
